theory Spec2Isabelle
  imports Complex_Main "HOL-Library.Word"
begin

unbundle bit_operations_syntax

section \<open>Values of the JavaScript runtime\<close>

text \<open>
  A Node.js \<open>Buffer\<close> is a list of bytes. A JavaScript string is a sequence of UTF-16
  code units, kept as a list of naturals (what \<open>charCodeAt\<close> reads). String literals of
  the source are written with \<open>lit\<close>.
\<close>

type_synonym byte = "8 word"
type_synonym buffer = "byte list"
type_synonym jsstring = "nat list"

definition lit :: "string \<Rightarrow> jsstring" where
  "lit s = map of_char s"

text \<open>
  The values a payload can hold: what \<open>JSON.parse\<close> returns, a string, \<open>null\<close>, and
  \<open>undefined\<close> for a property that is absent. An object keeps its properties in
  insertion order.
\<close>

datatype jsval =
    Undefined
  | Null
  | Bool bool
  | Num real
  | Str jsstring
  | Arr "jsval list"
  | Obj "(jsstring \<times> jsval) list"

text \<open>
  The library functions the source calls and that are not part of the repository are
  parameters of the model: \<open>JSON.parse\<close> (\<open>None\<close> when it throws),
  \<open>JSON.stringify\<close>, \<open>String(x)\<close>, the SHA-256 digest and the base64 encoding of
  \<open>crypto\<close>/\<open>Buffer\<close>, and \<open>toLowerCase\<close> outside ASCII.
\<close>

record runtime =
  JSON_parse :: "jsstring \<Rightarrow> jsval option"
  JSON_stringify :: "jsval \<Rightarrow> jsstring"
  String_of :: "jsval \<Rightarrow> jsstring"
  sha256 :: "buffer \<Rightarrow> buffer"
  base64 :: "buffer \<Rightarrow> jsstring"
  lower_unicode :: "jsstring \<Rightarrow> jsstring"

section \<open>Buffer encodings\<close>

text \<open>\<open>buf.toString('hex')\<close>: two lowercase hexadecimal digits per byte.\<close>

definition hex_digit :: "nat \<Rightarrow> char" where
  "hex_digit n = ''0123456789abcdef'' ! (n mod 16)"

definition hex_byte :: "byte \<Rightarrow> string" where
  "hex_byte b = [hex_digit (unat b div 16), hex_digit (unat b mod 16)]"

definition to_hex :: "buffer \<Rightarrow> string" where
  "to_hex bs = concat (map hex_byte bs)"

text \<open>\<open>buf.toString('binary')\<close> (latin1): one code unit per byte, the byte's value.\<close>

definition latin1_decode :: "buffer \<Rightarrow> jsstring" where
  "latin1_decode bs = map unat bs"

text \<open>\<open>buf.toString('ascii')\<close>: the highest bit of each byte is cleared first.\<close>

definition ascii_decode :: "buffer \<Rightarrow> jsstring" where
  "ascii_decode bs = map (\<lambda>b. unat (b AND 0x7F)) bs"

text \<open>
  \<open>buf.toString('utf-8')\<close>: the UTF-8 decoder of the runtime. A byte that cannot start
  or continue a sequence gives U+FFFD; a byte that breaks a sequence is read again as the
  start of the next one. \<open>utf8_scan needed cp lo hi bs\<close> has \<open>needed\<close> continuation
  bytes to go for the code point \<open>cp\<close>, the next of them within \<open>lo..hi\<close>.
\<close>

function utf8_scan :: "nat \<Rightarrow> nat \<Rightarrow> nat \<Rightarrow> nat \<Rightarrow> buffer \<Rightarrow> nat list" where
  "utf8_scan needed cp lo hi bs =
     (case bs of
        [] \<Rightarrow> (if needed = 0 then [] else [0xFFFD])
      | b # rest \<Rightarrow>
          (let v = unat b in
           if needed = 0 then
             (if v \<le> 0x7F then v # utf8_scan 0 0 0x80 0xBF rest
              else if 0xC2 \<le> v \<and> v \<le> 0xDF then utf8_scan 1 (v mod 32) 0x80 0xBF rest
              else if 0xE0 \<le> v \<and> v \<le> 0xEF then
                utf8_scan 2 (v mod 16) (if v = 0xE0 then 0xA0 else 0x80)
                  (if v = 0xED then 0x9F else 0xBF) rest
              else if 0xF0 \<le> v \<and> v \<le> 0xF4 then
                utf8_scan 3 (v mod 8) (if v = 0xF0 then 0x90 else 0x80)
                  (if v = 0xF4 then 0x8F else 0xBF) rest
              else 0xFFFD # utf8_scan 0 0 0x80 0xBF rest)
           else if v < lo \<or> hi < v then 0xFFFD # utf8_scan 0 0 0x80 0xBF (b # rest)
           else
             (let cp' = cp * 64 + v mod 64 in
              if needed = 1 then cp' # utf8_scan 0 0 0x80 0xBF rest
              else utf8_scan (needed - 1) cp' 0x80 0xBF rest)))"
  by pat_completeness auto
termination
  by (relation "measure (\<lambda>(needed, cp, lo, hi, bs). 2 * length bs + (if needed = 0 then 0 else 1))")
    auto

declare utf8_scan.simps [simp del]

text \<open>A code point above the basic plane is a surrogate pair in a JavaScript string.\<close>

definition utf16_units :: "nat \<Rightarrow> jsstring" where
  "utf16_units cp =
     (if cp < 0x10000 then [cp]
      else [0xD800 + (cp - 0x10000) div 0x400, 0xDC00 + (cp - 0x10000) mod 0x400])"

definition utf8_decode :: "buffer \<Rightarrow> jsstring" where
  "utf8_decode bs = concat (map utf16_units (utf8_scan 0 0 0x80 0xBF bs))"

text \<open>
  \<open>Buffer.from(str, 'utf-8')\<close>: one to four bytes per code point; a surrogate without
  its partner is encoded as U+FFFD.
\<close>

definition utf8_bytes :: "nat \<Rightarrow> buffer" where
  "utf8_bytes cp =
     (if cp < 0x80 then [of_nat cp]
      else if cp < 0x800 then [of_nat (0xC0 + cp div 64), of_nat (0x80 + cp mod 64)]
      else if cp < 0x10000 then
        [of_nat (0xE0 + cp div 4096), of_nat (0x80 + (cp div 64) mod 64), of_nat (0x80 + cp mod 64)]
      else
        [of_nat (0xF0 + cp div 262144), of_nat (0x80 + (cp div 4096) mod 64),
         of_nat (0x80 + (cp div 64) mod 64), of_nat (0x80 + cp mod 64)])"

fun utf8_encode :: "jsstring \<Rightarrow> buffer" where
  "utf8_encode [] = []"
| "utf8_encode [c] =
     (if 0xD800 \<le> c \<and> c < 0xE000 then utf8_bytes 0xFFFD else utf8_bytes c)"
| "utf8_encode (c # d # cs) =
     (if 0xD800 \<le> c \<and> c < 0xDC00 \<and> 0xDC00 \<le> d \<and> d < 0xE000 then
        utf8_bytes (0x10000 + (c - 0xD800) * 0x400 + (d - 0xDC00)) @ utf8_encode cs
      else if 0xD800 \<le> c \<and> c < 0xE000 then utf8_bytes 0xFFFD @ utf8_encode (d # cs)
      else utf8_bytes c @ utf8_encode (d # cs))"

section \<open>Frame codec (utils/protocol.ts)\<close>

record MessageHeader =
  byte1 :: byte
  byte2 :: byte
  byte3 :: byte
  byte4 :: byte
  hasPayload :: bool
  headerHex :: string
  totalLength :: nat
  payloadType :: "string option"

record ParsedMessage =
  header :: "MessageHeader option"
  payload :: jsval

text \<open>\<open>str.split('\x00')\<close> for a separator of one code unit: never an empty array.\<close>

fun split_acc :: "nat \<Rightarrow> jsstring \<Rightarrow> jsstring \<Rightarrow> jsstring list" where
  "split_acc sep acc [] = [acc]"
| "split_acc sep acc (c # cs) =
     (if c = sep then acc # split_acc sep [] cs else split_acc sep (acc @ [c]) cs)"

definition js_split :: "nat \<Rightarrow> jsstring \<Rightarrow> jsstring list" where
  "js_split sep s = split_acc sep [] s"

text \<open>
  \<open>parseWidgetUpdate\<close>. Nothing inside its \<open>try\<close> block throws, so the \<open>catch\<close>
  branch has no counterpart here. Logging is left out throughout.
\<close>

definition parseWidgetUpdate :: "buffer \<Rightarrow> jsval" where
  "parseWidgetUpdate payloadData =
     (let parts = js_split 0 (latin1_decode payloadData) in
      if length parts < 2 then
        Obj [(lit ''error'', Str (lit ''Insufficient null terminators'')),
             (lit ''rawHex'', Str (lit (to_hex payloadData)))]
      else
        (let deviceId = parts ! 0;
             widgetId = (if length parts > 2 then parts ! 2 else lit '''');
             widgetValue = (if length parts > 3 then parts ! 3 else lit '''')
         in Obj [(lit ''widgetId'', Str widgetId),
                 (lit ''deviceId'', Str deviceId),
                 (lit ''widgetValue'', Str widgetValue)]))"

text \<open>\<open>isPrintable\<close>: the loop returns at the first code unit outside the range.\<close>

fun isPrintable :: "jsstring \<Rightarrow> bool" where
  "isPrintable [] = True"
| "isPrintable (code # rest) =
     (if \<not> ((code \<ge> 0x20 \<and> code \<le> 0x7e) \<or> code = 0x0a \<or> code = 0x0d \<or> code = 0x09)
      then False else isPrintable rest)"

text \<open>The descriptor of a binary payload; the source writes it out in three places.\<close>

definition binary_descriptor :: "buffer \<Rightarrow> jsval" where
  "binary_descriptor payloadData =
     Obj [(lit ''hex'', Str (lit (to_hex payloadData))),
          (lit ''length'', Num (real (length payloadData))),
          (lit ''preview'',
             Str (lit (if length payloadData > 50 then to_hex (take 50 payloadData)
                       else to_hex payloadData)))]"

text \<open>
  \<open>parseBinaryMessage\<close>; \<open>classify\<close> is the body of its \<open>if (hasPayload)\<close>
  block, returning the payload and the payload type. Of the nested \<open>try\<close> blocks only
  \<open>JSON.parse\<close> can throw: decoding a buffer to a string never does, so the two outer
  \<open>catch\<close> branches (which build the same binary descriptor) are not reachable.
\<close>

definition classify :: "runtime \<Rightarrow> byte \<Rightarrow> buffer \<Rightarrow> jsval \<times> string option" where
  "classify R b2 payloadData =
     (if b2 = 0x14 then (parseWidgetUpdate payloadData, Some ''widget_update'')
      else
        (case JSON_parse R (utf8_decode payloadData) of
           Some v \<Rightarrow> (v, Some ''json'')
         | None \<Rightarrow>
             (let asciiStr = ascii_decode payloadData in
              if isPrintable asciiStr then (Str asciiStr, Some ''ascii'')
              else
                (let utf8Str = utf8_decode payloadData in
                 if isPrintable utf8Str then (Str utf8Str, Some ''text'')
                 else (binary_descriptor payloadData, Some ''binary'')))))"

definition parseBinaryMessage :: "runtime \<Rightarrow> buffer \<Rightarrow> ParsedMessage" where
  "parseBinaryMessage R data =
     (if length data < 4 then \<lparr>header = None, payload = Null\<rparr>
      else
        (let b1 = data ! 0; b2 = data ! 1; b3 = data ! 2; b4 = data ! 3;
             hasPayload' = (length data > 4);
             hdr = \<lparr>byte1 = b1, byte2 = b2, byte3 = b3, byte4 = b4,
                    hasPayload = hasPayload', headerHex = to_hex (take 4 data),
                    totalLength = length data, payloadType = None\<rparr>;
             (p, ptype) = (if hasPayload' then classify R b2 (drop 4 data) else (Null, None))
         in \<lparr>header = Some (hdr\<lparr>payloadType := ptype\<rparr>), payload = p\<rparr>))"

text \<open>
  \<open>createBinaryMessage\<close>. The header bytes are JavaScript numbers; \<open>Buffer.from\<close> of
  an array keeps the low eight bits of each. The payload is a string, \<open>null\<close> (the
  default, which also stands in for \<open>undefined\<close>), or any other value, which is
  serialized as JSON.
\<close>

definition createBinaryMessage ::
    "runtime \<Rightarrow> jsval \<Rightarrow> nat \<Rightarrow> nat \<Rightarrow> nat \<Rightarrow> nat \<Rightarrow> buffer" where
  "createBinaryMessage R p b1 b2 b3 b4 =
     (let hdr = [of_nat b1, of_nat b2, of_nat b3, of_nat b4] in
      case p of
        Str s \<Rightarrow> hdr @ utf8_encode s
      | Null \<Rightarrow> hdr
      | Undefined \<Rightarrow> hdr
      | _ \<Rightarrow> hdr @ utf8_encode (JSON_stringify R p))"

section \<open>Credential hash (utils/hash.ts)\<close>

text \<open>
  \<open>str.toLowerCase()\<close>: on a string of ASCII code units only the letters A to Z
  change; any other string is lowered by the runtime's Unicode case mapping.
\<close>

definition toLowerCase :: "runtime \<Rightarrow> jsstring \<Rightarrow> jsstring" where
  "toLowerCase R s =
     (if list_all (\<lambda>c. c < 0x80) s
      then map (\<lambda>c. if 0x41 \<le> c \<and> c \<le> 0x5A then c + 0x20 else c) s
      else lower_unicode R s)"

text \<open>\<open>calculateHash\<close>; \<open>update\<close> of a string hashes its UTF-8 bytes.\<close>

definition calculateHash :: "runtime \<Rightarrow> jsstring \<Rightarrow> jsstring \<Rightarrow> jsstring" where
  "calculateHash R email password =
     (let emailHash = sha256 R (utf8_encode (toLowerCase R email));
          combined = utf8_encode password @ emailHash;
          finalHash = sha256 R combined
      in base64 R finalHash)"

section \<open>A runtime for concrete runs\<close>

text \<open>
  The JSON texts of the end-to-end scenario of the specification and the values they
  stand for: the reply to the device query, with the one device \<open>Home Charger\<close> of id
  89349, and the device page, whose dashboard has one widget with one module with the one
  stream \<open>Charging Power\<close> of id 5.
\<close>

definition docs_text :: jsstring where
  \<open>docs_text = lit ''{"docs":[[0,{"name":"Home Charger","deviceId":89349}]]}''\<close>

definition docs_value :: jsval where
  "docs_value =
     Obj [(lit ''docs'',
           Arr [Arr [Num 0, Obj [(lit ''name'', Str (lit ''Home Charger'')),
                                 (lit ''deviceId'', Num 89349)]]])]"

definition page_text :: jsstring where
  \<open>page_text = lit ''{"dashboard":{"widgets":[{"modules":[{"displayDataStreams":[{"id":5,"name":"Charging Power"}]}]}]}}''\<close>

definition stream_value :: jsval where
  "stream_value = Obj [(lit ''id'', Num 5), (lit ''name'', Str (lit ''Charging Power''))]"

definition page_value :: jsval where
  "page_value =
     Obj [(lit ''dashboard'',
           Obj [(lit ''widgets'',
                 Arr [Obj [(lit ''modules'',
                            Arr [Obj [(lit ''displayDataStreams'', Arr [stream_value])]])]])])]"

text \<open>
  The theorems below hold for every runtime. To run the model on concrete frames, this
  instance is used: its \<open>JSON.parse\<close> reads the texts \<open>{}\<close> and \<open>null\<close> and the
  two texts above and rejects any other text; its \<open>JSON.stringify\<close> prints every value
  as \<open>{}\<close>; its \<open>String\<close> prints the numbers 89349 and 5, and \<open>0\<close> for any other
  value; its digest and its base64 encoding leave the bytes as they are.
\<close>

definition example_runtime :: runtime where
  "example_runtime =
     \<lparr>JSON_parse = (\<lambda>s. if s = lit ''{}'' then Some (Obj [])
                        else if s = lit ''null'' then Some Null
                        else if s = docs_text then Some docs_value
                        else if s = page_text then Some page_value
                        else None),
      JSON_stringify = (\<lambda>v. lit ''{}''),
      String_of = (\<lambda>v. if v = Num 89349 then lit ''89349''
                       else if v = Num 5 then lit ''5'' else lit ''0''),
      sha256 = (\<lambda>bs. bs),
      base64 = latin1_decode,
      lower_unicode = (\<lambda>s. s)\<rparr>"

text \<open>The printable range of the specification, on bytes.\<close>

definition printable_byte :: "byte \<Rightarrow> bool" where
  "printable_byte b = ((0x20 \<le> b \<and> b \<le> 0x7E) \<or> b = 0x0A \<or> b = 0x0D \<or> b = 0x09)"

text \<open>The printable range as \<open>isPrintable\<close> tests it, on one code unit.\<close>

definition printable_code :: "nat \<Rightarrow> bool" where
  "printable_code c = ((0x20 \<le> c \<and> c \<le> 0x7E) \<or> c = 0x0A \<or> c = 0x0D \<or> c = 0x09)"

section \<open>Reading values the way JavaScript does\<close>

text \<open>
  What the client throws: an \<open>Error\<close> with its message, the \<open>TypeError\<close> of the
  runtime (a property read on \<open>null\<close> or \<open>undefined\<close>, a \<open>for...of\<close> over a value
  that is not iterable), or the error event of the socket.
\<close>

datatype error = Error string | TypeError | SocketError

text \<open>
  \<open>v.k\<close>, for the property names the client reads (\<open>docs\<close>, \<open>name\<close>, \<open>deviceId\<close>,
  \<open>dashboard\<close>, \<open>widgets\<close>, \<open>modules\<close>, \<open>displayDataStreams\<close>, \<open>id\<close>): none of them
  is a property of a string, a number, a boolean or an array.
\<close>

definition get_prop :: "jsval \<Rightarrow> jsstring \<Rightarrow> error + jsval" where
  "get_prop v k =
     (case v of
        Undefined \<Rightarrow> Inl TypeError
      | Null \<Rightarrow> Inl TypeError
      | Obj kvs \<Rightarrow> Inr (case map_of kvs k of Some x \<Rightarrow> x | None \<Rightarrow> Undefined)
      | _ \<Rightarrow> Inr Undefined)"

text \<open>\<open>v[1]\<close>.\<close>

definition get_index1 :: "jsval \<Rightarrow> error + jsval" where
  "get_index1 v =
     (case v of
        Undefined \<Rightarrow> Inl TypeError
      | Null \<Rightarrow> Inl TypeError
      | Arr xs \<Rightarrow> Inr (if 1 < length xs then xs ! 1 else Undefined)
      | Str s \<Rightarrow> Inr (if 1 < length s then Str [s ! 1] else Undefined)
      | Obj kvs \<Rightarrow> Inr (case map_of kvs (lit ''1'') of Some x \<Rightarrow> x | None \<Rightarrow> Undefined)
      | _ \<Rightarrow> Inr Undefined)"

text \<open>A string is iterated by code points: a surrogate pair is one element.\<close>

fun code_points :: "jsstring \<Rightarrow> jsstring list" where
  "code_points [] = []"
| "code_points [c] = [[c]]"
| "code_points (c # d # cs) =
     (if 0xD800 \<le> c \<and> c < 0xDC00 \<and> 0xDC00 \<le> d \<and> d < 0xE000
      then [c, d] # code_points cs else [c] # code_points (d # cs))"

text \<open>The elements \<open>for (const x of v)\<close> visits.\<close>

definition iterate :: "jsval \<Rightarrow> error + jsval list" where
  "iterate v =
     (case v of
        Arr xs \<Rightarrow> Inr xs
      | Str s \<Rightarrow> Inr (map Str (code_points s))
      | _ \<Rightarrow> Inl TypeError)"

text \<open>\<open>map.set(k, v)\<close> on a \<open>Map\<close> kept in insertion order.\<close>

fun map_set :: "'k \<Rightarrow> 'v \<Rightarrow> ('k \<times> 'v) list \<Rightarrow> ('k \<times> 'v) list" where
  "map_set k v [] = [(k, v)]"
| "map_set k v (p # ps) = (if fst p = k then (k, v) # ps else p # map_set k v ps)"

text \<open>
  \<open>map.set(k, v)\<close> when the key is any value: a \<open>Map\<close> compares objects and arrays
  by identity, and every object or array that comes out of \<open>JSON.parse\<close> is a new one,
  so such a key never meets an earlier key; the other values are compared by value.
\<close>

definition value_map_set :: "jsval \<Rightarrow> 'v \<Rightarrow> (jsval \<times> 'v) list \<Rightarrow> (jsval \<times> 'v) list" where
  "value_map_set k v m =
     (case k of
        Obj _ \<Rightarrow> m @ [(k, v)]
      | Arr _ \<Rightarrow> m @ [(k, v)]
      | _ \<Rightarrow> map_set k v m)"

section \<open>Connection session and exploration driver (client.ts)\<close>

text \<open>
  The socket, as far as the client sees it: the frames handed to \<open>ws.send\<close>, and
  whether \<open>ws.close\<close> has been called.
\<close>

record socket =
  sent :: "buffer list"
  closed :: bool

text \<open>
  The fields of \<open>EviqoWebsocketConnection\<close>. The class extends \<open>EventEmitter\<close>:
  \<open>emitted\<close> holds the events passed to \<open>emit\<close>, in order, which is what a listener
  registered with \<open>on\<close> observes. The last two fields are not fields of the class: they
  count the messages awaited on the socket and the readings of the clock so far.
\<close>

record session =
  ws :: "socket option"
  username :: "jsstring option"
  password :: "jsstring option"
  user :: jsval
  devices :: "jsval list"
  devicePages :: "jsval list"
  messageCounter :: nat
  widgetIdMap :: "(nat \<times> (jsstring \<times> jsval) list) list"
  widgetNameMap :: "(nat \<times> (jsval \<times> jsval) list) list"
  keepaliveTimer :: int
  emitted :: "(string \<times> jsval) list"
  heard :: nat
  ticks :: nat

text \<open>
  The world outside: how \<open>connect\<close> ends, what the \<open>n\<close>-th wait on the socket with a
  given timeout (in seconds) brings (a binary message, or \<open>None\<close> when the timer fires
  first), and the \<open>n\<close>-th reading of the clock in milliseconds.
\<close>

datatype connect_outcome = Opened | HttpFailed | SocketFailed

record env =
  connect_result :: connect_outcome
  inbox :: "nat \<Rightarrow> nat \<Rightarrow> buffer option"
  clock :: "nat \<Rightarrow> int"

text \<open>The constructor; \<open>now\<close> is the clock reading that initializes the timer.\<close>

definition new_session :: "jsstring option \<Rightarrow> jsstring option \<Rightarrow> int \<Rightarrow> session" where
  "new_session u p now =
     \<lparr>ws = None, username = u, password = p, user = Null, devices = [], devicePages = [],
      messageCounter = 0, widgetIdMap = [], widgetNameMap = [], keepaliveTimer = now,
      emitted = [], heard = 0, ticks = 0\<rparr>"

text \<open>
  \<open>connect\<close>: the HTTP request for the cookies and the opening of the socket are the
  environment's; the result is \<open>true\<close> on open, \<open>false\<close> when the HTTP step throws,
  and a rejection on a socket error.
\<close>

definition connect :: "env \<Rightarrow> session \<Rightarrow> (error + bool) \<times> session" where
  "connect E s =
     (case connect_result E of
        HttpFailed \<Rightarrow> (Inr False, s)
      | Opened \<Rightarrow> (Inr True, s\<lparr>ws := Some \<lparr>sent = [], closed = False\<rparr>\<rparr>)
      | SocketFailed \<Rightarrow> (Inl SocketError, s\<lparr>ws := Some \<lparr>sent = [], closed = False\<rparr>\<rparr>))"

text \<open>
  \<open>sendMessage\<close>; \<open>b4 = None\<close> is the omitted argument. The description is only
  logged. Nothing in the \<open>try\<close> block throws in the model.
\<close>

definition sendMessage ::
    "runtime \<Rightarrow> jsval \<Rightarrow> nat \<Rightarrow> nat \<Rightarrow> nat \<Rightarrow> nat option \<Rightarrow> session \<Rightarrow> session" where
  "sendMessage R p b1 b2 b3 b4 s =
     (case ws s of
        None \<Rightarrow> s
      | Some sock \<Rightarrow>
          (let (actualByte4, s1) =
                 (case b4 of
                    None \<Rightarrow> (messageCounter s, s\<lparr>messageCounter := messageCounter s + 1\<rparr>)
                  | Some b \<Rightarrow> (b, s));
               message = createBinaryMessage R p b1 b2 b3 actualByte4
           in s1\<lparr>ws := Some (sock\<lparr>sent := sent sock @ [message]\<rparr>)\<rparr>))"

text \<open>
  \<open>listen\<close>: the race between the next binary message and the timer is decided by
  the environment (the handler skips a message that is not a \<open>Buffer\<close>). One message
  at most is consumed. The decoded message is logged when it is a widget update, and
  returned to the caller; nothing else is done with it.
\<close>

definition listen :: "runtime \<Rightarrow> env \<Rightarrow> nat \<Rightarrow> session \<Rightarrow> ParsedMessage \<times> session" where
  "listen R E duration s =
     (case ws s of
        None \<Rightarrow> (\<lparr>header = None, payload = Null\<rparr>, s)
      | Some sock \<Rightarrow>
          (case inbox E (heard s) duration of
             Some message \<Rightarrow> (parseBinaryMessage R message, s\<lparr>heard := Suc (heard s)\<rparr>)
           | None \<Rightarrow> (\<lparr>header = None, payload = Null\<rparr>, s\<lparr>heard := Suc (heard s)\<rparr>)))"

definition keepalive :: "runtime \<Rightarrow> env \<Rightarrow> session \<Rightarrow> session" where
  "keepalive R E s =
     (let now = clock E (ticks s);
          s1 = s\<lparr>ticks := Suc (ticks s)\<rparr>;
          elapsed = now - keepaliveTimer s1
      in if elapsed \<ge> 15000 then
           (let s2 = s1\<lparr>keepaliveTimer := clock E (ticks s1), ticks := Suc (ticks s1)\<rparr>;
                s3 = sendMessage R Null 0x00 0x06 0x00 None s2
            in snd (listen R E 10 s3))
         else s1)"

definition issueInitialization :: "runtime \<Rightarrow> env \<Rightarrow> session \<Rightarrow> (error + unit) \<times> session" where
  "issueInitialization R E s =
     (let initPayload = Obj [(lit ''clientType'', Str (lit ''web'')),
                             (lit ''version'', Str (lit ''0.98.2'')),
                             (lit ''locale'', Str (lit ''en_US''))];
          s1 = sendMessage R initPayload 0x01 0x30 0x00 (Some 0x01) s;
          (r, s2) = listen R E 10 s1
      in if payload r = Null then (Inl (Error ''Init message failed''), s2)
         else (Inr (), s2))"

definition login :: "runtime \<Rightarrow> env \<Rightarrow> session \<Rightarrow> (error + unit) \<times> session" where
  "login R E s =
     (case (username s, password s) of
        (Some u, Some pw) \<Rightarrow>
          (let s1 = sendMessage R
                      (Obj [(lit ''email'', Str u),
                            (lit ''hash'', Str (calculateHash R u pw)),
                            (lit ''clientType'', Str (lit ''web'')),
                            (lit ''version'', Str (lit ''0.98.2'')),
                            (lit ''locale'', Str (lit ''en_US''))])
                      0x00 0x02 0x00 (Some 0x03) s;
               (r, s2) = listen R E 10 s1
           in if payload r = Null then (Inl (Error ''Did not get back user payload''), s2)
              else (Inr (), s2\<lparr>user := payload r\<rparr>))
      | _ \<Rightarrow> (Inl (Error ''User and password must be set''), s))"

text \<open>
  The loop of \<open>queryDevices\<close> over \<open>deviceResponse.docs\<close>: the element's second
  entry is pushed, then its \<open>name\<close> and \<open>deviceId\<close> are read for the log line.
\<close>

fun push_devices :: "jsval list \<Rightarrow> session \<Rightarrow> (error + unit) \<times> session" where
  "push_devices [] s = (Inr (), s)"
| "push_devices (device # rest) s =
     (case get_index1 device of
        Inl e \<Rightarrow> (Inl e, s)
      | Inr deviceDetails \<Rightarrow>
          (let s1 = s\<lparr>devices := devices s @ [deviceDetails]\<rparr> in
           case get_prop deviceDetails (lit ''name'') of
             Inl e \<Rightarrow> (Inl e, s1)
           | Inr _ \<Rightarrow>
               (case get_prop deviceDetails (lit ''deviceId'') of
                  Inl e \<Rightarrow> (Inl e, s1)
                | Inr _ \<Rightarrow> push_devices rest s1)))"

definition device_query :: jsval where
  "device_query =
     Obj [(lit ''docType'', Str (lit ''DEVICE'')),
          (lit ''mode'', Str (lit ''MATCH_ALL'')),
          (lit ''viewType'', Str (lit ''LIST'')),
          (lit ''filters'',
             Arr [Obj [(lit ''type'', Str (lit ''SUB_SEGMENT'')),
                       (lit ''filters'', Arr []),
                       (lit ''mode'', Str (lit ''MATCH_ANY'')),
                       (lit ''isCurrent'', Bool True)]]),
          (lit ''offset'', Num 0),
          (lit ''limit'', Num 17),
          (lit ''order'', Str (lit ''ASC'')),
          (lit ''sortBy'', Str (lit ''Name''))]"

definition queryDevices :: "runtime \<Rightarrow> env \<Rightarrow> session \<Rightarrow> (error + unit) \<times> session" where
  "queryDevices R E s =
     (let s1 = sendMessage R device_query 0x01 0x1b 0x00 None s;
          (r, s2) = listen R E 10 s1;
          deviceResponse = payload r
      in case get_prop deviceResponse (lit ''docs'') of
           Inl e \<Rightarrow> (Inl e, s2)
         | Inr docs \<Rightarrow>
             (case iterate docs of
                Inl e \<Rightarrow> (Inl e, s2)
              | Inr items \<Rightarrow> push_devices items s2))"

definition requestChargingStatus ::
    "runtime \<Rightarrow> env \<Rightarrow> jsval \<Rightarrow> session \<Rightarrow> (error + jsval) \<times> session" where
  "requestChargingStatus R E deviceId s =
     (if ws s = None then
        (Inl (Error ''Cannot request charging status before websocket is created''), s)
      else
        (let pageId = lit ''17948'';
             s1 = sendMessage R (Str (String_of R deviceId)) 0x00 0x49 0x01 None s;
             (result, s2) = listen R E 10 s1;
             s3 = sendMessage R
                    (Obj [(lit ''pageId'', Str pageId),
                          (lit ''deviceId'', Str (String_of R deviceId)),
                          (lit ''dashboardPageId'', Null)])
                    0x01 0x04 0x01 None s2;
             (result', s4) = listen R E 10 s3
         in (Inr (payload result'), s4)))"

text \<open>
  \<open>extractWidgetMappings\<close>: the two maps of the device are looked up (and created
  when missing) before the loops; each stream is registered under its id and under its
  name. The sorted listing at the end is only logged.
\<close>

definition register_stream ::
    "runtime \<Rightarrow> nat \<Rightarrow> jsval \<Rightarrow> session \<Rightarrow> (error + unit) \<times> session" where
  "register_stream R deviceIdx stream s =
     (case get_prop stream (lit ''id'') of
        Inl e \<Rightarrow> (Inl e, s)
      | Inr sid \<Rightarrow>
          (let idMap = (case map_of (widgetIdMap s) deviceIdx of Some m \<Rightarrow> m | None \<Rightarrow> []);
               s1 = s\<lparr>widgetIdMap :=
                        map_set deviceIdx (map_set (String_of R sid) stream idMap) (widgetIdMap s)\<rparr>
           in case get_prop stream (lit ''name'') of
                Inl e \<Rightarrow> (Inl e, s1)
              | Inr sname \<Rightarrow>
                  (let nameMap = (case map_of (widgetNameMap s1) deviceIdx of
                                    Some m \<Rightarrow> m | None \<Rightarrow> [])
                   in (Inr (), s1\<lparr>widgetNameMap :=
                                     map_set deviceIdx (value_map_set sname stream nameMap)
                                       (widgetNameMap s1)\<rparr>))))"

fun register_streams ::
    "runtime \<Rightarrow> nat \<Rightarrow> jsval list \<Rightarrow> session \<Rightarrow> (error + unit) \<times> session" where
  "register_streams R deviceIdx [] s = (Inr (), s)"
| "register_streams R deviceIdx (stream # rest) s =
     (case register_stream R deviceIdx stream s of
        (Inl e, s1) \<Rightarrow> (Inl e, s1)
      | (Inr _, s1) \<Rightarrow> register_streams R deviceIdx rest s1)"

fun register_modules ::
    "runtime \<Rightarrow> nat \<Rightarrow> jsval list \<Rightarrow> session \<Rightarrow> (error + unit) \<times> session" where
  "register_modules R deviceIdx [] s = (Inr (), s)"
| "register_modules R deviceIdx (module' # rest) s =
     (case get_prop module' (lit ''displayDataStreams'') of
        Inl e \<Rightarrow> (Inl e, s)
      | Inr displayDataStreams \<Rightarrow>
          (case iterate displayDataStreams of
             Inl e \<Rightarrow> (Inl e, s)
           | Inr streams \<Rightarrow>
               (case register_streams R deviceIdx streams s of
                  (Inl e, s1) \<Rightarrow> (Inl e, s1)
                | (Inr _, s1) \<Rightarrow> register_modules R deviceIdx rest s1)))"

fun register_widgets ::
    "runtime \<Rightarrow> nat \<Rightarrow> jsval list \<Rightarrow> session \<Rightarrow> (error + unit) \<times> session" where
  "register_widgets R deviceIdx [] s = (Inr (), s)"
| "register_widgets R deviceIdx (widget # rest) s =
     (case get_prop widget (lit ''modules'') of
        Inl e \<Rightarrow> (Inl e, s)
      | Inr modules \<Rightarrow>
          (case iterate modules of
             Inl e \<Rightarrow> (Inl e, s)
           | Inr ms \<Rightarrow>
               (case register_modules R deviceIdx ms s of
                  (Inl e, s1) \<Rightarrow> (Inl e, s1)
                | (Inr _, s1) \<Rightarrow> register_widgets R deviceIdx rest s1)))"

definition extractWidgetMappings ::
    "runtime \<Rightarrow> nat \<Rightarrow> jsval \<Rightarrow> session \<Rightarrow> (error + unit) \<times> session" where
  "extractWidgetMappings R deviceIdx devicePage s =
     (case get_prop devicePage (lit ''dashboard'') of
        Inl e \<Rightarrow> (Inl e, s)
      | Inr dashboard \<Rightarrow>
          (case get_prop dashboard (lit ''widgets'') of
             Inl e \<Rightarrow> (Inl e, s)
           | Inr widgets \<Rightarrow>
               (let s1 = (case map_of (widgetIdMap s) deviceIdx of
                            Some _ \<Rightarrow> s
                          | None \<Rightarrow> s\<lparr>widgetIdMap := map_set deviceIdx [] (widgetIdMap s)\<rparr>);
                    s2 = (case map_of (widgetNameMap s1) deviceIdx of
                            Some _ \<Rightarrow> s1
                          | None \<Rightarrow> s1\<lparr>widgetNameMap := map_set deviceIdx [] (widgetNameMap s1)\<rparr>)
                in case iterate widgets of
                     Inl e \<Rightarrow> (Inl e, s2)
                   | Inr ws' \<Rightarrow> register_widgets R deviceIdx ws' s2)))"

text \<open>
  How a run stands: it returned, it threw, or it is still in the steady-state loop
  after the given number of iterations.
\<close>

datatype outcome = Returned | Threw error | Running

text \<open>
  The steady-state loop \<open>while (!justScan)\<close>: \<open>keepalive\<close>, then \<open>listen(20)\<close>,
  whose result is dropped. Neither throws, so the loop has no exit; \<open>fuel\<close> bounds the
  iterations looked at.
\<close>

fun steady :: "runtime \<Rightarrow> env \<Rightarrow> nat \<Rightarrow> session \<Rightarrow> outcome \<times> session" where
  "steady R E 0 s = (Running, s)"
| "steady R E (Suc fuel) s = steady R E fuel (snd (listen R E 20 (keepalive R E s)))"

text \<open>The \<open>try\<close> block of \<open>run\<close>.\<close>

definition run_body ::
    "runtime \<Rightarrow> env \<Rightarrow> bool \<Rightarrow> nat \<Rightarrow> session \<Rightarrow> outcome \<times> session" where
  "run_body R E justScan fuel s =
     (case issueInitialization R E s of
        (Inl e, s1) \<Rightarrow> (Threw e, s1)
      | (Inr _, s1) \<Rightarrow>
     (case login R E s1 of
        (Inl e, s2) \<Rightarrow> (Threw e, s2)
      | (Inr _, s2) \<Rightarrow>
     (case queryDevices R E s2 of
        (Inl e, s3) \<Rightarrow> (Threw e, s3)
      | (Inr _, s3) \<Rightarrow>
     (case devices s3 of
        [] \<Rightarrow> (Threw (Error ''No devices found''), s3)
      | device # _ \<Rightarrow>
     (case get_prop device (lit ''deviceId'') of
        Inl e \<Rightarrow> (Threw e, s3)
      | Inr deviceId \<Rightarrow>
          if deviceId = Undefined then (Threw (Error ''Device ID was not set''), s3)
          else
     (case requestChargingStatus R E deviceId s3 of
        (Inl e, s4) \<Rightarrow> (Threw e, s4)
      | (Inr page, s4) \<Rightarrow>
          (let s5 = s4\<lparr>devicePages := devicePages s4 @ [page]\<rparr> in
     (case extractWidgetMappings R 0 (hd (devicePages s5)) s5 of
        (Inl e, s6) \<Rightarrow> (Threw e, s6)
      | (Inr _, s6) \<Rightarrow>
          (let s7 = keepalive R E s6 in
           if justScan then (Returned, s7) else steady R E fuel s7)))))))))"

text \<open>\<open>ws.close()\<close> in the \<open>finally\<close> block.\<close>

definition close_socket :: "session \<Rightarrow> session" where
  "close_socket s =
     (case ws s of None \<Rightarrow> s | Some sock \<Rightarrow> s\<lparr>ws := Some (sock\<lparr>closed := True\<rparr>)\<rparr>)"

text \<open>
  \<open>run\<close>: \<open>connect\<close> is awaited outside the \<open>try\<close>; the \<open>finally\<close> block runs
  once the \<open>try\<close> block is left, by return or by throw.
\<close>

definition run :: "runtime \<Rightarrow> env \<Rightarrow> bool \<Rightarrow> nat \<Rightarrow> session \<Rightarrow> outcome \<times> session" where
  "run R E justScan fuel s =
     (case connect E s of
        (Inl e, s0) \<Rightarrow> (Threw e, s0)
      | (Inr False, s0) \<Rightarrow> (Returned, s0)
      | (Inr True, s0) \<Rightarrow>
          (case run_body R E justScan fuel s0 of
             (Running, s1) \<Rightarrow> (Running, s1)
           | (out, s1) \<Rightarrow> (out, close_socket s1)))"

text \<open>
  The payload the \<open>n\<close>-th wait on the socket decodes to under timeout \<open>d\<close>: what
  \<open>listen\<close> returns as \<open>payload\<close> when the socket exists.
\<close>

definition response :: "runtime \<Rightarrow> env \<Rightarrow> nat \<Rightarrow> nat \<Rightarrow> jsval" where
  "response R E n d =
     (case inbox E n d of None \<Rightarrow> Null | Some message \<Rightarrow> payload (parseBinaryMessage R message))"

section \<open>Sessions and environments for concrete runs\<close>

text \<open>A session whose socket has just been opened, with credentials set.\<close>

definition connected_session :: session where
  "connected_session =
     (new_session (Some (lit ''user@example.com'')) (Some (lit ''pw'')) 0)
       \<lparr>ws := Some \<lparr>sent = [], closed = False\<rparr>\<rparr>"

text \<open>
  An environment in which the socket opens, the first \<open>k\<close> waits bring a frame with
  the JSON payload \<open>{}\<close> and every later wait times out; the clock stands still.
\<close>

definition acks_env :: "nat \<Rightarrow> env" where
  "acks_env k =
     \<lparr>connect_result = Opened,
      inbox = (\<lambda>n d. if n < k then Some [0x01, 0x30, 0x00, 0x01, 0x7B, 0x7D] else None),
      clock = (\<lambda>n. 0)\<rparr>"

text \<open>
  The frames of the end-to-end scenario: an acknowledgement with payload \<open>{}\<close>, the
  reply to the device query and the device page. In \<open>scenario_env select page\<close> the
  socket opens, the waits bring in turn the acknowledgement of Init, the reply to Login
  (again \<open>{}\<close>), the reply to the device query, \<open>select\<close> as the outcome of the
  wait after the Device Select send and \<open>page\<close> as the outcome of the wait after the
  Device Page send; every later wait times out, and the clock stands still.
\<close>

definition ack_frame :: buffer where
  "ack_frame = [0x01, 0x30, 0x00, 0x01] @ utf8_encode (lit ''{}'')"

definition docs_frame :: buffer where
  "docs_frame = [0x01, 0x1B, 0x00, 0x00] @ utf8_encode docs_text"

definition page_frame :: buffer where
  "page_frame = [0x01, 0x04, 0x01, 0x02] @ utf8_encode page_text"

definition scenario_env :: "buffer option \<Rightarrow> buffer option \<Rightarrow> env" where
  "scenario_env select page =
     \<lparr>connect_result = Opened,
      inbox = (\<lambda>n d.
        if n = 0 then Some ack_frame
        else if n = 1 then Some ack_frame
        else if n = 2 then Some docs_frame
        else if n = 3 then select
        else if n = 4 then page
        else None),
      clock = (\<lambda>n. 0)\<rparr>"

text \<open>
  The telemetry frame of the specification: header \<open>(0x00, 0x14, 0x00, 0x00)\<close> and
  payload \<open>89349\0vw\05\0241.29\<close>. In \<open>telemetry_env\<close> every wait brings it.
\<close>

definition telemetry_frame :: buffer where
  "telemetry_frame =
     [0x00, 0x14, 0x00, 0x00,
      0x38, 0x39, 0x33, 0x34, 0x39, 0x00, 0x76, 0x77, 0x00, 0x35, 0x00,
      0x32, 0x34, 0x31, 0x2E, 0x32, 0x39]"

definition telemetry_env :: env where
  "telemetry_env =
     \<lparr>connect_result = Opened, inbox = (\<lambda>n d. Some telemetry_frame), clock = (\<lambda>n. 0)\<rparr>"

section \<open>Facts about the buffer encodings\<close>

lemma utf8_scan_Nil:
  "utf8_scan needed cp lo hi [] = (if needed = 0 then [] else [0xFFFD])"
  by (subst utf8_scan.simps) simp

lemma utf8_scan_Cons:
  "utf8_scan needed cp lo hi (b # rest) =
     (let v = unat b in
      if needed = 0 then
        (if v \<le> 0x7F then v # utf8_scan 0 0 0x80 0xBF rest
         else if 0xC2 \<le> v \<and> v \<le> 0xDF then utf8_scan 1 (v mod 32) 0x80 0xBF rest
         else if 0xE0 \<le> v \<and> v \<le> 0xEF then
           utf8_scan 2 (v mod 16) (if v = 0xE0 then 0xA0 else 0x80)
             (if v = 0xED then 0x9F else 0xBF) rest
         else if 0xF0 \<le> v \<and> v \<le> 0xF4 then
           utf8_scan 3 (v mod 8) (if v = 0xF0 then 0x90 else 0x80)
             (if v = 0xF4 then 0x8F else 0xBF) rest
         else 0xFFFD # utf8_scan 0 0 0x80 0xBF rest)
      else if v < lo \<or> hi < v then 0xFFFD # utf8_scan 0 0 0x80 0xBF (b # rest)
      else
        (let cp' = cp * 64 + v mod 64 in
         if needed = 1 then cp' # utf8_scan 0 0 0x80 0xBF rest
         else utf8_scan (needed - 1) cp' 0x80 0xBF rest))"
  by (subst utf8_scan.simps) simp

lemmas run_utf8 = utf8_decode_def utf8_scan_Nil utf8_scan_Cons utf16_units_def

text \<open>Clearing the highest bit of a byte is its value modulo 128.\<close>

lemma ascii_unit: "unat ((b::byte) AND 0x7F) = unat b mod 128"
proof -
  have "(0x7F::byte) = mask 7" by (simp add: mask_eq_exp_minus_1)
  then have "b AND 0x7F = take_bit 7 b" by (simp only: take_bit_eq_mask)
  then have "b AND 0x7F = b mod 128" by (simp add: take_bit_eq_mod)
  then show ?thesis by (simp add: unat_mod)
qed

text \<open>
  A byte below 0x80 is never part of a multi-byte sequence: wherever it stands, the
  decoder gives it back as a code unit of its own.
\<close>

lemma utf8_scan_keeps_ascii:
  assumes ascii: "unat b \<le> 0x7F"
  shows "b \<in> set bs \<Longrightarrow> needed = 0 \<or> 0x80 \<le> lo \<Longrightarrow>
         unat b \<in> set (utf8_scan needed cp lo hi bs)"
proof (induction bs arbitrary: needed cp lo hi)
  case Nil
  then show ?case by simp
next
  case (Cons x rest)
  have tail: "unat b \<in> set (utf8_scan n c l h rest)" if "b \<noteq> x" "0x80 \<le> l" for n c l h
    by (rule Cons.IH) (use Cons.prems(1) that in simp_all)
  have start: "unat b \<in> set (utf8_scan 0 c l h (x # rest))" for c l h
  proof (cases "b = x")
    case True
    then show ?thesis using ascii by (simp add: utf8_scan_Cons)
  next
    case False
    show ?thesis by (simp add: utf8_scan_Cons Let_def tail [OF False])
  qed
  show ?case
  proof (cases "needed = 0")
    case True
    then show ?thesis using start by simp
  next
    case False
    then have lo: "0x80 \<le> lo" using Cons.prems(2) by simp
    show ?thesis
    proof (cases "unat x < lo \<or> hi < unat x")
      case True
      then show ?thesis using False start [of 0 "0x80" "0xBF"]
        by (subst utf8_scan_Cons) (simp add: Let_def)
    next
      case inr: False
      then have ne: "b \<noteq> x" using lo ascii by auto
      show ?thesis using False inr
        by (subst utf8_scan_Cons) (simp add: Let_def tail [OF ne])
    qed
  qed
qed

lemma utf8_decode_keeps_ascii:
  "b \<in> set bs \<Longrightarrow> unat b \<le> 0x7F \<Longrightarrow> unat b \<in> set (utf8_decode bs)"
  using utf8_scan_keeps_ascii [of b bs 0 "0x80" 0 "0xBF"]
  by (auto simp: utf8_decode_def utf16_units_def intro!: bexI [of _ "unat b"])

section \<open>Facts about the frame codec\<close>

lemma isPrintable_iff: "isPrintable s \<longleftrightarrow> list_all printable_code s"
  by (induction s) (auto simp: printable_code_def)

lemma printable_byte_code: "printable_byte b \<longleftrightarrow> printable_code (unat b)"
  by (simp add: printable_byte_def printable_code_def word_le_nat_alt word_unat_eq_iff)

lemma printable_ascii_unit: "printable_byte b \<Longrightarrow> unat (b AND 0x7F) = unat b"
  by (auto simp: ascii_unit printable_byte_code printable_code_def)

lemma control_ascii_unit: "b \<le> 8 \<Longrightarrow> unat ((b::byte) AND 0x7F) = unat b"
  by (simp add: ascii_unit word_le_nat_alt)

lemma printable_payload_ascii:
  "list_all printable_byte bs \<Longrightarrow> isPrintable (ascii_decode bs)"
  by (induction bs)
    (auto simp: ascii_decode_def printable_ascii_unit printable_byte_code printable_code_def)

lemma control_byte_not_ascii:
  assumes "b \<in> set bs" "b \<le> 8"
  shows "\<not> isPrintable (ascii_decode bs)"
proof -
  have "unat b \<in> set (ascii_decode bs)"
    using assms control_ascii_unit [of b] by (force simp: ascii_decode_def)
  moreover have "\<not> printable_code (unat b)"
    using assms(2) by (simp add: printable_code_def word_le_nat_alt)
  ultimately show ?thesis by (auto simp: isPrintable_iff list_all_iff)
qed

lemma control_byte_not_utf8:
  assumes "b \<in> set bs" "b \<le> 8"
  shows "\<not> isPrintable (utf8_decode bs)"
proof -
  have le: "unat b \<le> 8" using assms(2) by (simp add: word_le_nat_alt)
  then have "unat b \<in> set (utf8_decode bs)"
    using utf8_decode_keeps_ascii [OF assms(1)] by simp
  moreover have "\<not> printable_code (unat b)"
    using le by (simp add: printable_code_def)
  ultimately show ?thesis by (auto simp: isPrintable_iff list_all_iff)
qed

lemma parseBinaryMessage_with_payload:
  "4 < length data \<Longrightarrow>
   parseBinaryMessage R data =
     \<lparr>header = Some \<lparr>byte1 = data ! 0, byte2 = data ! 1, byte3 = data ! 2, byte4 = data ! 3,
                      hasPayload = True, headerHex = to_hex (take 4 data),
                      totalLength = length data,
                      payloadType = snd (classify R (data ! 1) (drop 4 data))\<rparr>,
      payload = fst (classify R (data ! 1) (drop 4 data))\<rparr>"
  by (simp add: parseBinaryMessage_def Let_def case_prod_beta)

lemma createBinaryMessage_header:
  "\<exists>rest. createBinaryMessage R p b1 b2 b3 b4 =
            of_nat b1 # of_nat b2 # of_nat b3 # of_nat b4 # rest"
  by (cases p) (simp_all add: createBinaryMessage_def)

lemma parseBinaryMessage_header_bytes:
  "\<exists>h. header (parseBinaryMessage R (a # b # c # d # rest)) = Some h \<and>
        byte1 h = a \<and> byte2 h = b \<and> byte3 h = c \<and> byte4 h = d"
  by (simp add: parseBinaryMessage_def Let_def case_prod_beta)

lemma split_acc_length: "length (split_acc sep acc s) = Suc (count_list s sep)"
  by (induction s arbitrary: acc) auto

text \<open>The segments of a telemetry payload: one more than its null bytes.\<close>

lemma segments_count: "length (js_split 0 (latin1_decode p)) = Suc (count_list p 0)"
  by (induction p) (auto simp: js_split_def latin1_decode_def split_acc_length unat_eq_0)

section \<open>The claims about the frame codec\<close>

text \<open>
  C3 (as amended). A frame with a payload whose second header byte is 0x14 is a widget
  update whatever its bytes are. Otherwise a payload of printable bytes only (0x20 to
  0x7E, LF, CR, TAB) is classified \<open>json\<close> when \<open>JSON.parse\<close> accepts it and \<open>ascii\<close>
  text when not, and never \<open>binary\<close>; and a payload with a byte in 0x00 to 0x08 that
  \<open>JSON.parse\<close> rejects is classified \<open>binary\<close>.
\<close>

theorem payload_classification:
  "4 < length data \<Longrightarrow>
   (\<exists>h. header (parseBinaryMessage R data) = Some h \<and>
      (data ! 1 = 0x14 \<longrightarrow> payloadType h = Some ''widget_update'') \<and>
      (data ! 1 \<noteq> 0x14 \<and> list_all printable_byte (drop 4 data) \<longrightarrow>
         payloadType h = (if JSON_parse R (utf8_decode (drop 4 data)) = None
                          then Some ''ascii'' else Some ''json'') \<and>
         payloadType h \<noteq> Some ''binary'') \<and>
      (data ! 1 \<noteq> 0x14 \<and> (\<exists>b\<in>set (drop 4 data). b \<le> 8) \<and>
       JSON_parse R (utf8_decode (drop 4 data)) = None \<longrightarrow>
         payloadType h = Some ''binary''))"
  by (auto simp add: parseBinaryMessage_with_payload classify_def Let_def
      printable_payload_ascii control_byte_not_ascii control_byte_not_utf8)

text \<open>
  The four cases at concrete frames: a widget update, the text \<open>A\<close>, the JSON text
  \<open>{}\<close>, and \<open>A\<close> followed by a null byte.
\<close>

theorem payload_classification_witness:
  "4 < length [0, 0x14, 0, 0, 0x41 :: byte] \<and>
   (\<exists>h. header (parseBinaryMessage example_runtime [0, 0x14, 0, 0, 0x41]) = Some h \<and>
        payloadType h = Some ''widget_update'') \<and>
   list_all printable_byte [0x41] \<and> JSON_parse example_runtime (utf8_decode [0x41]) = None \<and>
   (\<exists>h. header (parseBinaryMessage example_runtime [1, 2, 3, 4, 0x41]) = Some h \<and>
        payloadType h = Some ''ascii'') \<and>
   list_all printable_byte [0x7B, 0x7D] \<and>
   JSON_parse example_runtime (utf8_decode [0x7B, 0x7D]) \<noteq> None \<and>
   (\<exists>h. header (parseBinaryMessage example_runtime [1, 2, 3, 4, 0x7B, 0x7D]) = Some h \<and>
        payloadType h = Some ''json'') \<and>
   (\<exists>b\<in>set [0x41, 0x00 :: byte]. b \<le> 8) \<and>
   JSON_parse example_runtime (utf8_decode [0x41, 0x00]) = None \<and>
   (\<exists>h. header (parseBinaryMessage example_runtime [1, 2, 3, 4, 0x41, 0x00]) = Some h \<and>
        payloadType h = Some ''binary'')"
proof -
  have p1: "list_all printable_byte [0x41]" by (simp add: printable_byte_def)
  have p2: "list_all printable_byte [0x7B, 0x7D]" by (simp add: printable_byte_def)
  have j1: "JSON_parse example_runtime (utf8_decode [0x41]) = None"
    by (simp add: run_utf8 example_runtime_def lit_def docs_text_def page_text_def)
  have j2: "JSON_parse example_runtime (utf8_decode [0x7B, 0x7D]) = Some (Obj [])"
    by (simp add: run_utf8 example_runtime_def lit_def docs_text_def page_text_def)
  have j3: "JSON_parse example_runtime (utf8_decode [0x41, 0x00]) = None"
    by (simp add: run_utf8 example_runtime_def lit_def docs_text_def page_text_def)
  have w1: "\<exists>h. header (parseBinaryMessage example_runtime [0, 0x14, 0, 0, 0x41]) = Some h \<and>
        payloadType h = Some ''widget_update''"
    using payload_classification [of "[0, 0x14, 0, 0, 0x41]" example_runtime] by auto
  have w2: "\<exists>h. header (parseBinaryMessage example_runtime [1, 2, 3, 4, 0x41]) = Some h \<and>
        payloadType h = Some ''ascii''"
    using payload_classification [of "[1, 2, 3, 4, 0x41]" example_runtime] p1 j1 by auto
  have w3: "\<exists>h. header (parseBinaryMessage example_runtime [1, 2, 3, 4, 0x7B, 0x7D]) = Some h \<and>
        payloadType h = Some ''json''"
    using payload_classification [of "[1, 2, 3, 4, 0x7B, 0x7D]" example_runtime] p2 j2 by auto
  have w4: "\<exists>h. header (parseBinaryMessage example_runtime [1, 2, 3, 4, 0x41, 0x00]) = Some h \<and>
        payloadType h = Some ''binary''"
    using payload_classification [of "[1, 2, 3, 4, 0x41, 0x00]" example_runtime] j3 by auto
  show ?thesis using w1 w2 w3 w4 p1 p2 j1 j2 j3 by simp
qed

text \<open>
  The claim as stated fails twice: the printable payload \<open>{}\<close> is classified \<open>json\<close>,
  not text, and a payload with a null byte under header byte 0x14 is a widget update,
  not binary.
\<close>

theorem printable_classifier_counterexample:
  "list_all printable_byte [0x7B, 0x7D] \<and>
   map_option payloadType (header (parseBinaryMessage example_runtime [1, 2, 3, 4, 0x7B, 0x7D]))
     = Some (Some ''json'') \<and>
   (\<exists>b\<in>set [0x41, 0x00 :: byte]. b \<le> 8) \<and>
   map_option payloadType
     (header (parseBinaryMessage example_runtime [0, 0x14, 0, 0, 0x41, 0x00]))
     = Some (Some ''widget_update'')"
  by (simp add: printable_byte_def parseBinaryMessage_def classify_def run_utf8
      example_runtime_def lit_def docs_text_def page_text_def)

text \<open>
  C4. For every header tuple of four bytes and every payload (null, a string, or a
  structured value), decoding the encoded frame gives a header, and its four bytes are the
  ones encoded.
\<close>

theorem header_roundtrip:
  "\<exists>h. header (parseBinaryMessage R
            (createBinaryMessage R p (unat b1) (unat b2) (unat b3) (unat b4))) = Some h \<and>
        byte1 h = b1 \<and> byte2 h = b2 \<and> byte3 h = b3 \<and> byte4 h = b4"
proof -
  obtain rest where
    "createBinaryMessage R p (unat b1) (unat b2) (unat b3) (unat b4) =
       of_nat (unat b1) # of_nat (unat b2) # of_nat (unat b3) # of_nat (unat b4) # rest"
    using createBinaryMessage_header by blast
  then show ?thesis
    using parseBinaryMessage_header_bytes [of R b1 b2 b3 b4 rest] by simp
qed

text \<open>
  C5. An input of fewer than four bytes decodes to a null header and a null payload;
  the decoder is a total function, so there is no input on which it throws.
\<close>

theorem parseBinaryMessage_short:
  "length data < 4 \<Longrightarrow> parseBinaryMessage R data = \<lparr>header = None, payload = Null\<rparr>"
  by (simp add: parseBinaryMessage_def)

theorem parseBinaryMessage_short_witness:
  "length [1, 2 :: byte] < 4 \<and>
   parseBinaryMessage example_runtime [1, 2] = \<lparr>header = None, payload = Null\<rparr>"
  using parseBinaryMessage_short [of "[1, 2]" example_runtime] by simp

text \<open>
  C6. A telemetry payload with fewer than two null-delimited segments parses to the
  error result, which carries the payload bytes as hex; the parse is a total function
  into values, so it never throws.
\<close>

theorem parseWidgetUpdate_malformed:
  "length (js_split 0 (latin1_decode p)) < 2 \<Longrightarrow>
   parseWidgetUpdate p =
     Obj [(lit ''error'', Str (lit ''Insufficient null terminators'')),
          (lit ''rawHex'', Str (lit (to_hex p)))]"
  by (simp add: parseWidgetUpdate_def)

text \<open>The bytes of \<open>invalid\<close>.\<close>

theorem parseWidgetUpdate_malformed_witness:
  "length (js_split 0 (latin1_decode [0x69, 0x6e, 0x76, 0x61, 0x6c, 0x69, 0x64])) < 2 \<and>
   parseWidgetUpdate [0x69, 0x6e, 0x76, 0x61, 0x6c, 0x69, 0x64] =
     Obj [(lit ''error'', Str (lit ''Insufficient null terminators'')),
          (lit ''rawHex'', Str (lit ''696e76616c6964''))]"
proof -
  have seg: "length (js_split 0 (latin1_decode [0x69, 0x6e, 0x76, 0x61, 0x6c, 0x69, 0x64])) < 2"
    by code_simp
  have hex: "to_hex [0x69, 0x6e, 0x76, 0x61, 0x6c, 0x69, 0x64] = ''696e76616c6964''"
    by code_simp
  show ?thesis
    using parseWidgetUpdate_malformed [OF seg] seg hex by simp
qed

text \<open>
  C9. An empty string is encoded as the four header bytes alone, the frame of a null
  payload; a frame of four bytes decodes to no payload; so the empty string does not come
  back from decoding, and a decoded frame has a payload exactly when bytes follow the
  header.
\<close>

theorem empty_string_payload:
  "createBinaryMessage R (Str (lit '''')) b1 b2 b3 b4 = createBinaryMessage R Null b1 b2 b3 b4 \<and>
   createBinaryMessage R (Str (lit '''')) b1 b2 b3 b4 =
     [of_nat b1, of_nat b2, of_nat b3, of_nat b4] \<and>
   (\<exists>h. parseBinaryMessage R [a, b, c, d] = \<lparr>header = Some h, payload = Null\<rparr> \<and>
        \<not> hasPayload h) \<and>
   payload (parseBinaryMessage R (createBinaryMessage R (Str (lit '''')) b1 b2 b3 b4))
     \<noteq> Str (lit '''') \<and>
   map_option hasPayload (header (parseBinaryMessage R data)) =
     (if length data < 4 then None else Some (drop 4 data \<noteq> []))"
  by (auto simp add: createBinaryMessage_def lit_def parseBinaryMessage_def Let_def
      case_prod_beta)

text \<open>
  C10 (as amended). A telemetry payload of exactly two segments parses to a result
  without error field, with the first segment as \<open>deviceId\<close> and empty \<open>widgetId\<close> and
  \<open>widgetValue\<close>; one of exactly three segments has the third segment as \<open>widgetId\<close>
  and an empty \<open>widgetValue\<close>. The error result is produced exactly when there are
  fewer than two segments.
\<close>

theorem parseWidgetUpdate_segments:
  "(length (js_split 0 (latin1_decode p)) = 2 \<longrightarrow>
      parseWidgetUpdate p =
        Obj [(lit ''widgetId'', Str (lit '''')),
             (lit ''deviceId'', Str (js_split 0 (latin1_decode p) ! 0)),
             (lit ''widgetValue'', Str (lit ''''))]) \<and>
   (length (js_split 0 (latin1_decode p)) = 3 \<longrightarrow>
      parseWidgetUpdate p =
        Obj [(lit ''widgetId'', Str (js_split 0 (latin1_decode p) ! 2)),
             (lit ''deviceId'', Str (js_split 0 (latin1_decode p) ! 0)),
             (lit ''widgetValue'', Str (lit ''''))]) \<and>
   ((\<exists>e h. parseWidgetUpdate p = Obj [(lit ''error'', e), (lit ''rawHex'', h)]) \<longleftrightarrow>
      length (js_split 0 (latin1_decode p)) < 2)"
  by (auto simp add: parseWidgetUpdate_def Let_def lit_def)

text \<open>The payloads \<open>a\0b\<close> and \<open>a\0b\0c\<close>.\<close>

theorem parseWidgetUpdate_segments_witness:
  "length (js_split 0 (latin1_decode [0x61, 0, 0x62])) = 2 \<and>
   parseWidgetUpdate [0x61, 0, 0x62] =
     Obj [(lit ''widgetId'', Str (lit '''')), (lit ''deviceId'', Str (lit ''a'')),
          (lit ''widgetValue'', Str (lit ''''))] \<and>
   length (js_split 0 (latin1_decode [0x61, 0, 0x62, 0, 0x63])) = 3 \<and>
   parseWidgetUpdate [0x61, 0, 0x62, 0, 0x63] =
     Obj [(lit ''widgetId'', Str (lit ''c'')), (lit ''deviceId'', Str (lit ''a'')),
          (lit ''widgetValue'', Str (lit ''''))]"
proof -
  have s2: "js_split 0 (latin1_decode [0x61, 0, 0x62]) = [lit ''a'', lit ''b'']"
    by code_simp
  have s3: "js_split 0 (latin1_decode [0x61, 0, 0x62, 0, 0x63]) = [lit ''a'', lit ''b'', lit ''c'']"
    by code_simp
  show ?thesis
    using parseWidgetUpdate_segments [of "[0x61, 0, 0x62]"]
      parseWidgetUpdate_segments [of "[0x61, 0, 0x62, 0, 0x63]"]
    by (simp add: s2 s3)
qed

text \<open>
  With three segments the widget id is the third segment, here \<open>c\<close>, not the empty
  string.
\<close>

theorem parseWidgetUpdate_three_segments_counterexample:
  "length (js_split 0 (latin1_decode [0x61, 0, 0x62, 0, 0x63])) = 3 \<and>
   parseWidgetUpdate [0x61, 0, 0x62, 0, 0x63] \<noteq>
     Obj [(lit ''widgetId'', Str (lit '''')), (lit ''deviceId'', Str (lit ''a'')),
          (lit ''widgetValue'', Str (lit ''''))]"
  by code_simp

section \<open>The claim about the credential hash\<close>

text \<open>
  On ASCII strings the UTF-8 bytes are the code units, and lower-casing touches the
  letters A to Z only. Under an injective digest and encoding, two hashes are equal
  exactly when the hashed bytes are.
\<close>

lemma utf8_encode_ascii:
  "list_all (\<lambda>c. c < 0x80) s \<Longrightarrow> utf8_encode s = map of_nat s"
  by (induction s rule: utf8_encode.induct) (simp_all add: utf8_bytes_def)

lemma toLowerCase_ascii:
  "list_all (\<lambda>c. c < 0x80) s \<Longrightarrow>
   toLowerCase R s = map (\<lambda>c. if 0x41 \<le> c \<and> c \<le> 0x5A then c + 0x20 else c) s \<and>
   list_all (\<lambda>c. c < 0x80) (toLowerCase R s)"
  by (auto simp add: toLowerCase_def list_all_iff)

lemma calculateHash_unfold:
  "calculateHash R email pw =
     base64 R (sha256 R (utf8_encode pw @ sha256 R (utf8_encode (toLowerCase R email))))"
  by (simp add: calculateHash_def)

lemma calculateHash_inj:
  assumes "inj (sha256 R)" "inj (base64 R)"
  shows "(calculateHash R email pw = calculateHash R email' pw') \<longleftrightarrow>
         (utf8_encode pw @ sha256 R (utf8_encode (toLowerCase R email)) =
          utf8_encode pw' @ sha256 R (utf8_encode (toLowerCase R email')))"
  using assms by (auto simp add: calculateHash_unfold dest: injD)

text \<open>
  C7. The hash is the base64 encoding of the SHA-256 digest of the password's UTF-8
  bytes followed by the SHA-256 digest of the UTF-8 bytes of the lower-cased email. For an
  ASCII email and password these bytes are the password's characters as they are and the
  email's characters with A to Z lowered; an email that is not ASCII is lowered by the
  runtime's Unicode mapping. \<open>Test@Example.Com\<close> and \<open>test@example.com\<close> with
  \<open>pw\<close> give the same hash, over the bytes of \<open>pw\<close> and of \<open>test@example.com\<close>.
  A password outside ASCII enters by its UTF-8 bytes, case kept. The password is not
  case-normalized: under an injective digest and encoding two passwords give the same hash
  exactly when their UTF-8 bytes are equal (and two emails exactly when the bytes of their
  lower-cased forms are), so \<open>PW\<close> and \<open>pw\<close> differ.
\<close>

theorem calculateHash_formula:
  "calculateHash R email pw =
     base64 R (sha256 R (utf8_encode pw @ sha256 R (utf8_encode (toLowerCase R email)))) \<and>
   (list_all (\<lambda>c. c < 0x80) email \<and> list_all (\<lambda>c. c < 0x80) pw \<longrightarrow>
      calculateHash R email pw =
        base64 R (sha256 R (map of_nat pw @
          sha256 R (map (\<lambda>c. of_nat (if 0x41 \<le> c \<and> c \<le> 0x5A then c + 0x20 else c)) email)))) \<and>
   (\<not> list_all (\<lambda>c. c < 0x80) email \<longrightarrow>
      calculateHash R email pw =
        base64 R (sha256 R (utf8_encode pw @ sha256 R (utf8_encode (lower_unicode R email))))) \<and>
   calculateHash R (lit ''Test@Example.Com'') (lit ''pw'') =
     base64 R (sha256 R ([0x70, 0x77] @
       sha256 R [0x74, 0x65, 0x73, 0x74, 0x40, 0x65, 0x78, 0x61, 0x6D, 0x70, 0x6C, 0x65,
                 0x2E, 0x63, 0x6F, 0x6D])) \<and>
   calculateHash R (lit ''test@example.com'') (lit ''pw'') =
     calculateHash R (lit ''Test@Example.Com'') (lit ''pw'') \<and>
   calculateHash R (lit ''a'') [0x50, 0xE9, 0x20AC, 0xD83D, 0xDE00] =
     base64 R (sha256 R ([0x50, 0xC3, 0xA9, 0xE2, 0x82, 0xAC, 0xF0, 0x9F, 0x98, 0x80] @
       sha256 R [0x61])) \<and>
   (inj (sha256 R) \<and> inj (base64 R) \<longrightarrow>
      ((calculateHash R email pw = calculateHash R email pw') =
         (utf8_encode pw = utf8_encode pw')) \<and>
      ((calculateHash R email pw = calculateHash R email' pw) =
         (utf8_encode (toLowerCase R email) = utf8_encode (toLowerCase R email'))) \<and>
      calculateHash R email (lit ''PW'') \<noteq> calculateHash R email (lit ''pw'')) \<and>
   (\<exists>R'. calculateHash R' email (lit ''PW'') \<noteq> calculateHash R' email (lit ''pw''))"
proof -
  have ascii: "list_all (\<lambda>c. c < 0x80) email \<and> list_all (\<lambda>c. c < 0x80) pw \<longrightarrow>
      calculateHash R email pw =
        base64 R (sha256 R (map of_nat pw @
          sha256 R (map (\<lambda>c. of_nat (if 0x41 \<le> c \<and> c \<le> 0x5A then c + 0x20 else c)) email)))"
  proof
    assume a: "list_all (\<lambda>c. c < 0x80) email \<and> list_all (\<lambda>c. c < 0x80) pw"
    then have low: "toLowerCase R email =
        map (\<lambda>c. if 0x41 \<le> c \<and> c \<le> 0x5A then c + 0x20 else c) email"
      and "list_all (\<lambda>c. c < 0x80) (toLowerCase R email)"
      using toLowerCase_ascii [of email R] by blast+
    then have "utf8_encode (toLowerCase R email) = map of_nat (toLowerCase R email)"
      by (intro utf8_encode_ascii)
    then have "utf8_encode (toLowerCase R email) =
        map of_nat (map (\<lambda>c. if 0x41 \<le> c \<and> c \<le> 0x5A then c + 0x20 else c) email)"
      by (simp only: low)
    moreover have "utf8_encode pw = map of_nat pw"
      using a by (simp add: utf8_encode_ascii)
    ultimately show "calculateHash R email pw =
        base64 R (sha256 R (map of_nat pw @
          sha256 R (map (\<lambda>c. of_nat (if 0x41 \<le> c \<and> c \<le> 0x5A then c + 0x20 else c)) email)))"
      by (simp add: calculateHash_unfold comp_def)
  qed
  have other: "\<not> list_all (\<lambda>c. c < 0x80) email \<longrightarrow>
      calculateHash R email pw =
        base64 R (sha256 R (utf8_encode pw @ sha256 R (utf8_encode (lower_unicode R email))))"
    by (simp add: calculateHash_unfold toLowerCase_def)
  have v1: "calculateHash R (lit ''Test@Example.Com'') (lit ''pw'') =
     base64 R (sha256 R ([0x70, 0x77] @
       sha256 R [0x74, 0x65, 0x73, 0x74, 0x40, 0x65, 0x78, 0x61, 0x6D, 0x70, 0x6C, 0x65,
                 0x2E, 0x63, 0x6F, 0x6D]))"
    by (simp add: calculateHash_unfold toLowerCase_def lit_def utf8_bytes_def)
  have v2: "calculateHash R (lit ''test@example.com'') (lit ''pw'') =
     base64 R (sha256 R ([0x70, 0x77] @
       sha256 R [0x74, 0x65, 0x73, 0x74, 0x40, 0x65, 0x78, 0x61, 0x6D, 0x70, 0x6C, 0x65,
                 0x2E, 0x63, 0x6F, 0x6D]))"
    by (simp add: calculateHash_unfold toLowerCase_def lit_def utf8_bytes_def)
  have v3: "calculateHash R (lit ''a'') [0x50, 0xE9, 0x20AC, 0xD83D, 0xDE00] =
     base64 R (sha256 R ([0x50, 0xC3, 0xA9, 0xE2, 0x82, 0xAC, 0xF0, 0x9F, 0x98, 0x80] @
       sha256 R [0x61]))"
    by (simp add: calculateHash_unfold toLowerCase_def lit_def utf8_bytes_def)
  have pwcase: "utf8_encode (lit ''PW'') \<noteq> utf8_encode (lit ''pw'')"
    by (simp add: lit_def utf8_bytes_def)
  have inj: "inj (sha256 R) \<and> inj (base64 R) \<longrightarrow>
      ((calculateHash R email pw = calculateHash R email pw') =
         (utf8_encode pw = utf8_encode pw')) \<and>
      ((calculateHash R email pw = calculateHash R email' pw) =
         (utf8_encode (toLowerCase R email) = utf8_encode (toLowerCase R email'))) \<and>
      calculateHash R email (lit ''PW'') \<noteq> calculateHash R email (lit ''pw'')"
    using pwcase by (auto simp add: calculateHash_inj dest: injD)
  have "calculateHash example_runtime email (lit ''PW'') \<noteq>
        calculateHash example_runtime email (lit ''pw'')"
    by (simp add: calculateHash_def example_runtime_def latin1_decode_def lit_def utf8_bytes_def)
  then have ex: "\<exists>R'. calculateHash R' email (lit ''PW'') \<noteq> calculateHash R' email (lit ''pw'')"
    by (rule exI)
  show ?thesis
    using ascii other v1 v2 v3 inj ex calculateHash_unfold [of R email pw] by simp
qed

text \<open>
  With the digest and the encoding that leave the bytes as they are: an ASCII pair, an
  email starting with U+00C9, and the passwords \<open>PW\<close> and \<open>pw\<close>.
\<close>

theorem calculateHash_formula_witness:
  "inj (sha256 example_runtime) \<and> inj (base64 example_runtime) \<and>
   list_all (\<lambda>c. c < 0x80) (lit ''Ab@C.de'') \<and> list_all (\<lambda>c. c < 0x80) (lit ''Pw1'') \<and>
   calculateHash example_runtime (lit ''Ab@C.de'') (lit ''Pw1'') =
     [0x50, 0x77, 0x31, 0x61, 0x62, 0x40, 0x63, 0x2E, 0x64, 0x65] \<and>
   \<not> list_all (\<lambda>c. c < 0x80) [0xC9, 0x40 :: nat] \<and>
   calculateHash example_runtime [0xC9, 0x40] (lit ''pw'') = [0x70, 0x77, 0xC3, 0x89, 0x40] \<and>
   calculateHash example_runtime (lit ''a@b'') (lit ''PW'') \<noteq>
     calculateHash example_runtime (lit ''a@b'') (lit ''pw'')"
proof -
  have "inj (unat :: byte \<Rightarrow> nat)"
    by (rule injI) (simp add: word_unat_eq_iff)
  then have "inj (latin1_decode)"
    unfolding latin1_decode_def by (rule inj_mapI)
  then have i: "inj (sha256 example_runtime)" "inj (base64 example_runtime)"
    by (simp_all add: example_runtime_def inj_on_def)
  have a: "list_all (\<lambda>c. c < 0x80) (lit ''Ab@C.de'')" "list_all (\<lambda>c. c < 0x80) (lit ''Pw1'')"
    by (simp_all add: lit_def)
  have n: "\<not> list_all (\<lambda>c. c < 0x80) [0xC9, 0x40 :: nat]"
    by simp
  have f: "sha256 example_runtime bs = bs" "base64 example_runtime bs = map unat bs"
    "lower_unicode example_runtime s = s" for bs s
    by (simp_all add: example_runtime_def latin1_decode_def)
  have w1: "calculateHash example_runtime (lit ''Ab@C.de'') (lit ''Pw1'') =
     [0x50, 0x77, 0x31, 0x61, 0x62, 0x40, 0x63, 0x2E, 0x64, 0x65]"
    using calculateHash_formula [where R = example_runtime and email = "lit ''Ab@C.de''"
        and pw = "lit ''Pw1''", THEN conjunct2, THEN conjunct1] a
    by (simp add: f lit_def)
  have w2: "calculateHash example_runtime [0xC9, 0x40] (lit ''pw'') = [0x70, 0x77, 0xC3, 0x89, 0x40]"
    using calculateHash_formula [where R = example_runtime and email = "[0xC9, 0x40]"
        and pw = "lit ''pw''", THEN conjunct2, THEN conjunct2, THEN conjunct1] n
    by (simp add: f lit_def utf8_bytes_def)
  have w3: "calculateHash example_runtime (lit ''a@b'') (lit ''PW'') \<noteq>
     calculateHash example_runtime (lit ''a@b'') (lit ''pw'')"
    using calculateHash_formula [where R = example_runtime and email = "lit ''a@b''"] i
    by blast
  show ?thesis using i a n w1 w2 w3 by simp
qed

section \<open>Facts about the session\<close>

text \<open>
  \<open>sendMessage\<close> and \<open>listen\<close> leave most of the session alone; the stages built
  from them are described by what they return and by the fields they keep.
\<close>

lemma sendMessage_fields [simp]:
  "heard (sendMessage R p b1 b2 b3 b4 s) = heard s"
  "ticks (sendMessage R p b1 b2 b3 b4 s) = ticks s"
  "username (sendMessage R p b1 b2 b3 b4 s) = username s"
  "password (sendMessage R p b1 b2 b3 b4 s) = password s"
  "emitted (sendMessage R p b1 b2 b3 b4 s) = emitted s"
  "devices (sendMessage R p b1 b2 b3 b4 s) = devices s"
  "devicePages (sendMessage R p b1 b2 b3 b4 s) = devicePages s"
  "keepaliveTimer (sendMessage R p b1 b2 b3 b4 s) = keepaliveTimer s"
  "(ws (sendMessage R p b1 b2 b3 b4 s) = None) = (ws s = None)"
  by (simp_all add: sendMessage_def Let_def case_prod_beta split: option.splits)

lemma listen_fields [simp]:
  "ws (snd (listen R E d s)) = ws s"
  "heard (snd (listen R E d s)) = (if ws s = None then heard s else Suc (heard s))"
  "ticks (snd (listen R E d s)) = ticks s"
  "username (snd (listen R E d s)) = username s"
  "password (snd (listen R E d s)) = password s"
  "emitted (snd (listen R E d s)) = emitted s"
  "devices (snd (listen R E d s)) = devices s"
  "devicePages (snd (listen R E d s)) = devicePages s"
  "messageCounter (snd (listen R E d s)) = messageCounter s"
  "keepaliveTimer (snd (listen R E d s)) = keepaliveTimer s"
  by (simp_all add: listen_def split: option.splits)

lemma listen_payload:
  "payload (fst (listen R E d s)) = (if ws s = None then Null else response R E (heard s) d)"
  by (simp add: listen_def response_def split: option.splits)

lemma issueInitialization_result:
  "fst (issueInitialization R E s) =
     (if ws s = None \<or> response R E (heard s) 10 = Null
      then Inl (Error ''Init message failed'') else Inr ())"
  by (simp add: issueInitialization_def Let_def case_prod_beta listen_payload)

lemma issueInitialization_fields [simp]:
  "(ws (snd (issueInitialization R E s)) = None) = (ws s = None)"
  "heard (snd (issueInitialization R E s)) = (if ws s = None then heard s else Suc (heard s))"
  "username (snd (issueInitialization R E s)) = username s"
  "password (snd (issueInitialization R E s)) = password s"
  "emitted (snd (issueInitialization R E s)) = emitted s"
  by (simp_all add: issueInitialization_def Let_def case_prod_beta)

lemma login_result:
  "username s = Some u \<Longrightarrow> password s = Some pw \<Longrightarrow>
   fst (login R E s) =
     (if ws s = None \<or> response R E (heard s) 10 = Null
      then Inl (Error ''Did not get back user payload'') else Inr ())"
  by (simp add: login_def Let_def case_prod_beta listen_payload)

lemma login_fields [simp]:
  "(ws (snd (login R E s)) = None) = (ws s = None)"
  "emitted (snd (login R E s)) = emitted s"
  by (simp_all add: login_def Let_def case_prod_beta split: option.splits)

lemma login_heard:
  "username s = Some u \<Longrightarrow> password s = Some pw \<Longrightarrow>
   heard (snd (login R E s)) = (if ws s = None then heard s else Suc (heard s))"
  by (simp add: login_def Let_def case_prod_beta)

lemma queryDevices_null:
  "ws s = None \<or> response R E (heard s) 10 = Null \<Longrightarrow> fst (queryDevices R E s) = Inl TypeError"
  by (auto simp add: queryDevices_def Let_def case_prod_beta listen_payload get_prop_def)

lemma push_devices_ws [simp]: "ws (snd (push_devices items s)) = ws s"
  by (induction items arbitrary: s) (simp_all add: Let_def split: sum.splits)

lemma push_devices_emitted [simp]: "emitted (snd (push_devices items s)) = emitted s"
  by (induction items arbitrary: s) (simp_all add: Let_def split: sum.splits)

lemma queryDevices_fields [simp]:
  "(ws (snd (queryDevices R E s)) = None) = (ws s = None)"
  "emitted (snd (queryDevices R E s)) = emitted s"
  by (simp_all add: queryDevices_def Let_def case_prod_beta split: sum.splits)

lemma sendMessage_auto:
  "ws s = Some sock \<Longrightarrow>
   sendMessage R p b1 b2 b3 None s =
     s\<lparr>messageCounter := messageCounter s + 1,
       ws := Some (sock\<lparr>sent := sent sock @ [createBinaryMessage R p b1 b2 b3 (messageCounter s)]\<rparr>)\<rparr>"
  by (simp add: sendMessage_def)

lemma sendMessage_pinned:
  "ws s = Some sock \<Longrightarrow>
   sendMessage R p b1 b2 b3 (Some b4) s =
     s\<lparr>ws := Some (sock\<lparr>sent := sent sock @ [createBinaryMessage R p b1 b2 b3 b4]\<rparr>)\<rparr>"
  by (simp add: sendMessage_def)

lemma sendMessage_without_socket: "ws s = None \<Longrightarrow> sendMessage R p b1 b2 b3 b4 s = s"
  by (simp add: sendMessage_def)

lemma requestChargingStatus_result:
  "ws s \<noteq> None \<Longrightarrow>
   fst (requestChargingStatus R E deviceId s) = Inr (response R E (Suc (heard s)) 10)"
  by (auto simp add: requestChargingStatus_def Let_def case_prod_beta listen_payload)

lemma requestChargingStatus_sent:
  "ws s = Some sock \<Longrightarrow>
   ws (snd (requestChargingStatus R E deviceId s)) =
     Some (sock\<lparr>sent := sent sock @
       [createBinaryMessage R (Str (String_of R deviceId)) 0x00 0x49 0x01 (messageCounter s),
        createBinaryMessage R
          (Obj [(lit ''pageId'', Str (lit ''17948'')),
                (lit ''deviceId'', Str (String_of R deviceId)),
                (lit ''dashboardPageId'', Null)])
          0x01 0x04 0x01 (Suc (messageCounter s))]\<rparr>)"
  by (simp add: requestChargingStatus_def Let_def case_prod_beta sendMessage_auto)

lemma extractWidgetMappings_null:
  "extractWidgetMappings R deviceIdx Null s = (Inl TypeError, s)"
  by (simp add: extractWidgetMappings_def get_prop_def)

lemma run_body_init_fail:
  "fst (issueInitialization R E s) = Inl e \<Longrightarrow>
   run_body R E justScan fuel s = (Threw e, snd (issueInitialization R E s))"
  by (cases "issueInitialization R E s") (simp add: run_body_def)

lemma run_body_login_fail:
  "fst (issueInitialization R E s) = Inr () \<Longrightarrow>
   fst (login R E (snd (issueInitialization R E s))) = Inl e \<Longrightarrow>
   run_body R E justScan fuel s = (Threw e, snd (login R E (snd (issueInitialization R E s))))"
  by (cases "issueInitialization R E s"; cases "login R E (snd (issueInitialization R E s))")
    (simp add: run_body_def)

lemma run_body_query_fail:
  "fst (issueInitialization R E s) = Inr () \<Longrightarrow>
   fst (login R E (snd (issueInitialization R E s))) = Inr () \<Longrightarrow>
   fst (queryDevices R E (snd (login R E (snd (issueInitialization R E s))))) = Inl e \<Longrightarrow>
   run_body R E justScan fuel s =
     (Threw e, snd (queryDevices R E (snd (login R E (snd (issueInitialization R E s))))))"
  by (cases "issueInitialization R E s"; cases "login R E (snd (issueInitialization R E s))";
      cases "queryDevices R E (snd (login R E (snd (issueInitialization R E s))))")
    (simp add: run_body_def)

lemma run_threw:
  "connect_result E = Opened \<Longrightarrow>
   run_body R E justScan fuel (s\<lparr>ws := Some \<lparr>sent = [], closed = False\<rparr>\<rparr>) = (Threw e, s') \<Longrightarrow>
   run R E justScan fuel s = (Threw e, close_socket s')"
  by (simp add: run_def connect_def)

lemma close_socket_closed:
  "ws s \<noteq> None \<Longrightarrow> \<exists>sock. ws (close_socket s) = Some sock \<and> closed sock"
  by (auto simp add: close_socket_def)

lemma keepalive_emitted [simp]: "emitted (keepalive R E s) = emitted s"
  by (simp add: keepalive_def Let_def)

lemma requestChargingStatus_emitted [simp]:
  "emitted (snd (requestChargingStatus R E deviceId s)) = emitted s"
  by (simp add: requestChargingStatus_def Let_def case_prod_beta)

lemma register_stream_emitted [simp]:
  "emitted (snd (register_stream R i stream s)) = emitted s"
  by (simp add: register_stream_def Let_def split: sum.splits)

lemma register_streams_emitted [simp]:
  "emitted (snd (register_streams R i streams s)) = emitted s"
proof (induction streams arbitrary: s)
  case Nil
  show ?case by simp
next
  case (Cons stream rest)
  show ?case
    using Cons.IH [of "snd (register_stream R i stream s)"] register_stream_emitted [of R i stream s]
    by (cases "register_stream R i stream s") (auto split: sum.splits)
qed

lemma register_modules_emitted [simp]:
  "emitted (snd (register_modules R i ms s)) = emitted s"
proof (induction ms arbitrary: s)
  case Nil
  show ?case by simp
next
  case (Cons m rest)
  show ?case
  proof (cases "get_prop m (lit ''displayDataStreams'')")
    case (Inl e)
    then show ?thesis by simp
  next
    case (Inr dds)
    show ?thesis
    proof (cases "iterate dds")
      case (Inl e)
      with Inr show ?thesis by simp
    next
      case inner: (Inr streams)
      show ?thesis
        using Inr inner Cons.IH [of "snd (register_streams R i streams s)"]
          register_streams_emitted [of R i streams s]
        by (cases "register_streams R i streams s") (auto split: sum.splits)
    qed
  qed
qed

lemma register_widgets_emitted [simp]:
  "emitted (snd (register_widgets R i wds s)) = emitted s"
proof (induction wds arbitrary: s)
  case Nil
  show ?case by simp
next
  case (Cons w rest)
  show ?case
  proof (cases "get_prop w (lit ''modules'')")
    case (Inl e)
    then show ?thesis by simp
  next
    case (Inr mods)
    show ?thesis
    proof (cases "iterate mods")
      case (Inl e)
      with Inr show ?thesis by simp
    next
      case inner: (Inr ms)
      show ?thesis
        using Inr inner Cons.IH [of "snd (register_modules R i ms s)"]
          register_modules_emitted [of R i ms s]
        by (cases "register_modules R i ms s") (auto split: sum.splits)
    qed
  qed
qed

lemma extractWidgetMappings_emitted [simp]:
  "emitted (snd (extractWidgetMappings R i page s)) = emitted s"
  by (simp add: extractWidgetMappings_def Let_def split: sum.splits option.splits)

lemma steady_emitted [simp]: "emitted (snd (steady R E fuel s)) = emitted s"
  by (induction fuel arbitrary: s) simp_all

lemma close_socket_emitted [simp]: "emitted (close_socket s) = emitted s"
  by (simp add: close_socket_def split: option.splits)

lemma connect_emitted [simp]: "emitted (snd (connect E s)) = emitted s"
  by (simp add: connect_def split: connect_outcome.splits)

lemma stage_emittedD:
  "issueInitialization R E s = (r, s') \<Longrightarrow> emitted s' = emitted s"
  "login R E s = (r, s') \<Longrightarrow> emitted s' = emitted s"
  "queryDevices R E s = (r, s') \<Longrightarrow> emitted s' = emitted s"
  "requestChargingStatus R E d s = (r', s') \<Longrightarrow> emitted s' = emitted s"
  "extractWidgetMappings R i page s = (r, s') \<Longrightarrow> emitted s' = emitted s"
  "steady R E fuel s = (out, s') \<Longrightarrow> emitted s' = emitted s"
  "connect E s = (c, s') \<Longrightarrow> emitted s' = emitted s"
  using issueInitialization_fields(5) [of R E s] login_fields(2) [of R E s]
    queryDevices_fields(2) [of R E s] requestChargingStatus_emitted [of R E d s]
    extractWidgetMappings_emitted [of R i page s] steady_emitted [of R E fuel s]
    connect_emitted [of E s]
  by simp_all

lemma run_body_emitted: "emitted (snd (run_body R E justScan fuel s)) = emitted s"
  unfolding run_body_def
  by (auto simp: Let_def split: prod.splits sum.splits list.splits dest!: stage_emittedD)

lemma run_emitted: "emitted (snd (run R E justScan fuel s)) = emitted s"
proof -
  have "emitted s' = emitted s0" if "run_body R E justScan fuel s0 = (out, s')" for s0 s' out
    using run_body_emitted [of R E justScan fuel s0] that by simp
  then show ?thesis
    unfolding run_def
    by (auto split: prod.splits sum.splits bool.splits outcome.splits dest!: stage_emittedD(7))
qed

lemma ack_payload:
  "payload (parseBinaryMessage example_runtime [0x01, 0x30, 0x00, 0x01, 0x7B, 0x7D]) = Obj []"
  by (simp add: parseBinaryMessage_def classify_def run_utf8 example_runtime_def lit_def
      docs_text_def page_text_def)

lemma acks_response:
  "response example_runtime (acks_env k) n d = (if n < k then Obj [] else Null)"
  by (simp add: response_def acks_env_def ack_payload)

text \<open>
  Evaluating the model with the example runtime, and the run up to a null device page.
\<close>

lemma example_runtime_fields:
  "JSON_stringify example_runtime v = lit ''{}''"
  "String_of example_runtime (Num 89349) = lit ''89349''"
  "String_of example_runtime (Num 5) = lit ''5''"
  "sha256 example_runtime bs = bs"
  "base64 example_runtime bs = latin1_decode bs"
  by (simp_all add: example_runtime_def)

lemma frames_decoded:
  "payload (parseBinaryMessage example_runtime ack_frame) = Obj []"
  "payload (parseBinaryMessage example_runtime docs_frame) = docs_value"
  "payload (parseBinaryMessage example_runtime page_frame) = page_value"
  by (simp_all add: ack_frame_def docs_frame_def page_frame_def parseBinaryMessage_def classify_def
      example_runtime_def lit_def utf8_bytes_def run_utf8 docs_text_def page_text_def)

lemmas run_client =
  run_def connect_def run_body_def issueInitialization_def login_def queryDevices_def
  requestChargingStatus_def extractWidgetMappings_def keepalive_def sendMessage_def listen_def
  close_socket_def register_stream_def value_map_set_def get_prop_def get_index1_def iterate_def device_query_def
  calculateHash_def toLowerCase_def createBinaryMessage_def new_session_def

lemmas run_example =
  run_client scenario_env_def frames_decoded example_runtime_fields docs_value_def page_value_def
  stream_value_def Let_def lit_def utf8_bytes_def latin1_decode_def

lemma requestChargingStatus_fields [simp]:
  "devicePages (snd (requestChargingStatus R E deviceId s)) = devicePages s"
  "(ws (snd (requestChargingStatus R E deviceId s)) = None) = (ws s = None)"
  by (simp_all add: requestChargingStatus_def Let_def case_prod_beta)

lemma run_body_page_null:
  assumes i: "issueInitialization R E s = (Inr (), s1)"
    and l: "login R E s1 = (Inr (), s2)"
    and q: "queryDevices R E s2 = (Inr (), s3)"
    and d: "devices s3 = device # rest"
    and g: "get_prop device (lit ''deviceId'') = Inr deviceId" "deviceId \<noteq> Undefined"
    and p: "devicePages s3 = []"
    and w: "ws s3 \<noteq> None"
    and n: "response R E (Suc (heard s3)) 10 = Null"
  shows "run_body R E justScan fuel s =
           (Threw TypeError,
            (snd (requestChargingStatus R E deviceId s3))\<lparr>devicePages := [Null]\<rparr>)"
proof -
  define s4 where "s4 = snd (requestChargingStatus R E deviceId s3)"
  have r: "requestChargingStatus R E deviceId s3 = (Inr Null, s4)"
    using requestChargingStatus_result [OF w, of R E deviceId] n
    by (cases "requestChargingStatus R E deviceId s3") (simp add: s4_def)
  have p4: "devicePages s4 = []"
    using p by (simp add: s4_def)
  have "run_body R E justScan fuel s = (Threw TypeError, s4\<lparr>devicePages := [Null]\<rparr>)"
    using i l q d g r p4
    by (simp add: run_body_def Let_def extractWidgetMappings_null)
  then show ?thesis by (simp add: s4_def)
qed

lemma pair_of_fst: "fst p = a \<Longrightarrow> p = (a, snd p)"
  by (cases p) simp

text \<open>
  The end-to-end scenario of the specification, in scan-only mode: one device, one device
  page, the stream found under its id \<open>5\<close> and under its name, five frames sent, the
  socket closed at the end, and no event emitted.
\<close>

theorem end_to_end_scenario:
  "run example_runtime (scenario_env (Some [0x00, 0x49, 0x01, 0x01]) (Some page_frame)) True 0
       (new_session (Some (lit ''a'')) (Some (lit ''b'')) 0) =
     (Returned,
      \<lparr>ws = Some \<lparr>sent = [[0x01, 0x30, 0x00, 0x01, 0x7B, 0x7D],
                            [0x00, 0x02, 0x00, 0x03, 0x7B, 0x7D],
                            [0x01, 0x1B, 0x00, 0x00, 0x7B, 0x7D],
                            [0x00, 0x49, 0x01, 0x01, 0x38, 0x39, 0x33, 0x34, 0x39],
                            [0x01, 0x04, 0x01, 0x02, 0x7B, 0x7D]],
                    closed = True\<rparr>,
       username = Some (lit ''a''), password = Some (lit ''b''), user = Obj [],
       devices = [Obj [(lit ''name'', Str (lit ''Home Charger'')), (lit ''deviceId'', Num 89349)]],
       devicePages = [page_value],
       messageCounter = 3,
       widgetIdMap = [(0, [(lit ''5'', stream_value)])],
       widgetNameMap = [(0, [(Str (lit ''Charging Power''), stream_value)])],
       keepaliveTimer = 0, emitted = [], heard = 5, ticks = 1\<rparr>)"
  by (simp add: run_example)

section \<open>The claims about the session and the driver\<close>

text \<open>
  C8 (as amended). On a session whose socket exists, a \<open>sendMessage\<close> call that
  omits \<open>b4\<close> sends a frame whose fourth header byte is the message counter (its low
  eight bits; the counter itself while it is below 256) and then increments the counter by
  exactly one; a call with an explicit \<open>b4\<close> sends that byte and leaves the counter
  unchanged. On a session without a socket the call changes nothing: no frame, no
  increment. In every case the counter does not decrease.
\<close>

theorem sendMessage_counter:
  "(\<forall>sock. ws s = Some sock \<longrightarrow>
      messageCounter (sendMessage R p b1 b2 b3 None s) = messageCounter s + 1 \<and>
      ws (sendMessage R p b1 b2 b3 None s) =
        Some (sock\<lparr>sent := sent sock @
                [createBinaryMessage R p b1 b2 b3 (messageCounter s)]\<rparr>) \<and>
      createBinaryMessage R p b1 b2 b3 (messageCounter s) ! 3 = of_nat (messageCounter s) \<and>
      (messageCounter s < 256 \<longrightarrow>
         unat (createBinaryMessage R p b1 b2 b3 (messageCounter s) ! 3) = messageCounter s) \<and>
      messageCounter (sendMessage R p b1 b2 b3 (Some b4) s) = messageCounter s \<and>
      ws (sendMessage R p b1 b2 b3 (Some b4) s) =
        Some (sock\<lparr>sent := sent sock @ [createBinaryMessage R p b1 b2 b3 b4]\<rparr>)) \<and>
   (ws s = None \<longrightarrow> sendMessage R p b1 b2 b3 b4' s = s) \<and>
   messageCounter s \<le> messageCounter (sendMessage R p b1 b2 b3 b4' s)"
proof -
  obtain rest where frame: "createBinaryMessage R p b1 b2 b3 (messageCounter s) =
      of_nat b1 # of_nat b2 # of_nat b3 # of_nat (messageCounter s) # rest"
    using createBinaryMessage_header by blast
  have byte: "createBinaryMessage R p b1 b2 b3 (messageCounter s) ! 3 = of_nat (messageCounter s)"
    by (simp add: frame)
  have small: "messageCounter s < 256 \<longrightarrow>
      unat (createBinaryMessage R p b1 b2 b3 (messageCounter s) ! 3) = messageCounter s"
    by (simp add: byte unat_of_nat)
  have mono: "messageCounter s \<le> messageCounter (sendMessage R p b1 b2 b3 b4' s)"
    by (cases "ws s"; cases b4') (simp_all add: sendMessage_def)
  show ?thesis
    using byte small mono
    by (simp add: sendMessage_auto sendMessage_pinned sendMessage_without_socket)
qed

text \<open>
  A keepalive frame on a fresh connection, an Init frame with its pinned byte, a keepalive
  frame at counter 300 (byte 0x2C), and a send before the socket exists.
\<close>

theorem sendMessage_counter_witness:
  "ws connected_session = Some \<lparr>sent = [], closed = False\<rparr> \<and>
   messageCounter (sendMessage example_runtime Null 0x00 0x06 0x00 None connected_session) = 1 \<and>
   ws (sendMessage example_runtime Null 0x00 0x06 0x00 None connected_session) =
     Some \<lparr>sent = [[0x00, 0x06, 0x00, 0x00]], closed = False\<rparr> \<and>
   messageCounter (sendMessage example_runtime Null 0x01 0x30 0x00 (Some 0x01) connected_session) = 0 \<and>
   ws (connected_session\<lparr>messageCounter := 300\<rparr>) = Some \<lparr>sent = [], closed = False\<rparr> \<and>
   ws (sendMessage example_runtime Null 0x00 0x06 0x00 None
         (connected_session\<lparr>messageCounter := 300\<rparr>)) =
     Some \<lparr>sent = [[0x00, 0x06, 0x00, 0x2C]], closed = False\<rparr> \<and>
   ws (new_session None None 0) = None \<and>
   sendMessage example_runtime Null 0x00 0x06 0x00 None (new_session None None 0) =
     new_session None None 0"
proof -
  have c: "ws connected_session = Some \<lparr>sent = [], closed = False\<rparr>"
    "messageCounter connected_session = 0"
    by (simp_all add: connected_session_def new_session_def)
  have c': "ws (connected_session\<lparr>messageCounter := 300\<rparr>) = Some \<lparr>sent = [], closed = False\<rparr>"
    by (simp add: c)
  have n: "ws (new_session None None 0) = None"
    by (simp add: new_session_def)
  show ?thesis
    using sendMessage_counter [where s = connected_session and R = example_runtime and p = Null
        and ?b1.0 = 0 and ?b2.0 = 6 and ?b3.0 = 0 and b4' = None]
      sendMessage_counter [where s = connected_session and R = example_runtime and p = Null
        and ?b1.0 = 1 and ?b2.0 = "0x30" and ?b3.0 = 0 and ?b4.0 = 1 and b4' = None]
      sendMessage_counter [where s = "connected_session\<lparr>messageCounter := 300\<rparr>"
        and R = example_runtime and p = Null and ?b1.0 = 0 and ?b2.0 = 6 and ?b3.0 = 0 and b4' = None]
      sendMessage_counter [where s = "new_session None None 0" and R = example_runtime
        and p = Null and ?b1.0 = 0 and ?b2.0 = 6 and ?b3.0 = 0 and b4' = None]
    by (simp add: c c' n createBinaryMessage_def)
qed

text \<open>
  Before \<open>connect\<close> the socket is \<open>null\<close>: the call that omits \<open>b4\<close> returns
  at the guard and the counter is not incremented.
\<close>

theorem sendMessage_no_socket_counterexample:
  "ws (new_session None None 0) = None \<and>
   messageCounter (sendMessage example_runtime Null 0x00 0x06 0x00 None (new_session None None 0))
     \<noteq> messageCounter (new_session None None 0) + 1"
  by (simp add: sendMessage_def new_session_def)

text \<open>
  C2 (as amended). Once the socket is open, a null response payload after the Init send,
  after the Login send or after the Device Query send makes \<open>run\<close> throw, and the
  socket is closed: \<open>Init message failed\<close>, \<open>Did not get back user payload\<close>, and
  for Device Query the \<open>TypeError\<close> of reading \<open>docs\<close> from the null response. A
  null response payload after the Device Page send, in a run that got that far on a session
  without earlier device pages, is appended to the device pages and makes \<open>run\<close> throw
  the \<open>TypeError\<close> of reading \<open>dashboard\<close> from it, and the socket is closed. The
  Device Select response is not looked at: whatever the two responses are, null included,
  \<open>requestChargingStatus\<close> sends the Device Select and the Device Page request and
  returns the second response's payload, without raising.
\<close>

theorem null_response_by_stage:
  "(connect_result E = Opened \<and> response R E (heard s) 10 = Null \<longrightarrow>
      (\<exists>s'. run R E justScan fuel s = (Threw (Error ''Init message failed''), s') \<and>
            (\<exists>sock. ws s' = Some sock \<and> closed sock))) \<and>
   (connect_result E = Opened \<and> username s \<noteq> None \<and> password s \<noteq> None \<and>
    response R E (heard s) 10 \<noteq> Null \<and> response R E (Suc (heard s)) 10 = Null \<longrightarrow>
      (\<exists>s'. run R E justScan fuel s = (Threw (Error ''Did not get back user payload''), s') \<and>
            (\<exists>sock. ws s' = Some sock \<and> closed sock))) \<and>
   (connect_result E = Opened \<and> username s \<noteq> None \<and> password s \<noteq> None \<and>
    response R E (heard s) 10 \<noteq> Null \<and> response R E (Suc (heard s)) 10 \<noteq> Null \<and>
    response R E (Suc (Suc (heard s))) 10 = Null \<longrightarrow>
      (\<exists>s'. run R E justScan fuel s = (Threw TypeError, s') \<and>
            (\<exists>sock. ws s' = Some sock \<and> closed sock))) \<and>
   (connect_result E = Opened \<and>
    issueInitialization R E (s\<lparr>ws := Some \<lparr>sent = [], closed = False\<rparr>\<rparr>) = (Inr (), s1) \<and>
    login R E s1 = (Inr (), s2) \<and> queryDevices R E s2 = (Inr (), s3) \<and>
    devices s3 = device # rest \<and> get_prop device (lit ''deviceId'') = Inr deviceId \<and>
    deviceId \<noteq> Undefined \<and> devicePages s3 = [] \<and>
    response R E (Suc (heard s3)) 10 = Null \<longrightarrow>
      (\<exists>s'. run R E justScan fuel s = (Threw TypeError, s') \<and> devicePages s' = [Null] \<and>
            (\<exists>sock. ws s' = Some sock \<and> closed sock))) \<and>
   (\<forall>sock. ws s = Some sock \<longrightarrow>
      fst (requestChargingStatus R E deviceId s) = Inr (response R E (Suc (heard s)) 10) \<and>
      ws (snd (requestChargingStatus R E deviceId s)) =
        Some (sock\<lparr>sent := sent sock @
          [createBinaryMessage R (Str (String_of R deviceId)) 0x00 0x49 0x01 (messageCounter s),
           createBinaryMessage R
             (Obj [(lit ''pageId'', Str (lit ''17948'')),
                   (lit ''deviceId'', Str (String_of R deviceId)),
                   (lit ''dashboardPageId'', Null)])
             0x01 0x04 0x01 (Suc (messageCounter s))]\<rparr>))"
proof -
  let ?s0 = "s\<lparr>ws := Some \<lparr>sent = [], closed = False\<rparr>\<rparr>"
  let ?s1 = "snd (issueInitialization R E ?s0)"
  let ?s2 = "snd (login R E ?s1)"
  let ?s3 = "snd (queryDevices R E ?s2)"
  have init: "connect_result E = Opened \<and> response R E (heard s) 10 = Null \<longrightarrow>
      (\<exists>s'. run R E justScan fuel s = (Threw (Error ''Init message failed''), s') \<and>
            (\<exists>sock. ws s' = Some sock \<and> closed sock))"
  proof
    assume a: "connect_result E = Opened \<and> response R E (heard s) 10 = Null"
    then have "fst (issueInitialization R E ?s0) = Inl (Error ''Init message failed'')"
      by (simp add: issueInitialization_result)
    then have "run_body R E justScan fuel ?s0 = (Threw (Error ''Init message failed''), ?s1)"
      by (rule run_body_init_fail)
    with a have "run R E justScan fuel s = (Threw (Error ''Init message failed''), close_socket ?s1)"
      by (simp add: run_threw)
    moreover have "\<exists>sock. ws (close_socket ?s1) = Some sock \<and> closed sock"
      by (rule close_socket_closed) simp
    ultimately show "\<exists>s'. run R E justScan fuel s = (Threw (Error ''Init message failed''), s') \<and>
            (\<exists>sock. ws s' = Some sock \<and> closed sock)"
      by blast
  qed
  have login: "connect_result E = Opened \<and> username s \<noteq> None \<and> password s \<noteq> None \<and>
    response R E (heard s) 10 \<noteq> Null \<and> response R E (Suc (heard s)) 10 = Null \<longrightarrow>
      (\<exists>s'. run R E justScan fuel s = (Threw (Error ''Did not get back user payload''), s') \<and>
            (\<exists>sock. ws s' = Some sock \<and> closed sock))"
  proof
    assume a: "connect_result E = Opened \<and> username s \<noteq> None \<and> password s \<noteq> None \<and>
      response R E (heard s) 10 \<noteq> Null \<and> response R E (Suc (heard s)) 10 = Null"
    then obtain u pw where cred: "username ?s1 = Some u" "password ?s1 = Some pw"
      by auto
    have i: "fst (issueInitialization R E ?s0) = Inr ()"
      using a by (simp add: issueInitialization_result)
    have "fst (login R E ?s1) = Inl (Error ''Did not get back user payload'')"
      using a by (simp add: login_result [OF cred])
    with i have "run_body R E justScan fuel ?s0 =
        (Threw (Error ''Did not get back user payload''), ?s2)"
      by (rule run_body_login_fail)
    with a have "run R E justScan fuel s =
        (Threw (Error ''Did not get back user payload''), close_socket ?s2)"
      by (simp add: run_threw)
    moreover have "\<exists>sock. ws (close_socket ?s2) = Some sock \<and> closed sock"
      by (rule close_socket_closed) simp
    ultimately show "\<exists>s'. run R E justScan fuel s =
        (Threw (Error ''Did not get back user payload''), s') \<and>
            (\<exists>sock. ws s' = Some sock \<and> closed sock)"
      by blast
  qed
  have query: "connect_result E = Opened \<and> username s \<noteq> None \<and> password s \<noteq> None \<and>
    response R E (heard s) 10 \<noteq> Null \<and> response R E (Suc (heard s)) 10 \<noteq> Null \<and>
    response R E (Suc (Suc (heard s))) 10 = Null \<longrightarrow>
      (\<exists>s'. run R E justScan fuel s = (Threw TypeError, s') \<and>
            (\<exists>sock. ws s' = Some sock \<and> closed sock))"
  proof
    assume a: "connect_result E = Opened \<and> username s \<noteq> None \<and> password s \<noteq> None \<and>
      response R E (heard s) 10 \<noteq> Null \<and> response R E (Suc (heard s)) 10 \<noteq> Null \<and>
      response R E (Suc (Suc (heard s))) 10 = Null"
    then obtain u pw where cred: "username ?s1 = Some u" "password ?s1 = Some pw"
      by auto
    have i: "fst (issueInitialization R E ?s0) = Inr ()"
      using a by (simp add: issueInitialization_result)
    have l: "fst (login R E ?s1) = Inr ()"
      using a by (simp add: login_result [OF cred])
    have h: "heard ?s2 = Suc (Suc (heard s))"
      by (simp add: login_heard [OF cred])
    have "fst (queryDevices R E ?s2) = Inl TypeError"
      using a h by (simp add: queryDevices_null)
    with i l have "run_body R E justScan fuel ?s0 = (Threw TypeError, ?s3)"
      by (rule run_body_query_fail)
    with a have "run R E justScan fuel s = (Threw TypeError, close_socket ?s3)"
      by (simp add: run_threw)
    moreover have "\<exists>sock. ws (close_socket ?s3) = Some sock \<and> closed sock"
      by (rule close_socket_closed) simp
    ultimately show "\<exists>s'. run R E justScan fuel s = (Threw TypeError, s') \<and>
            (\<exists>sock. ws s' = Some sock \<and> closed sock)"
      by blast
  qed
  have page: "connect_result E = Opened \<and>
    issueInitialization R E ?s0 = (Inr (), s1) \<and>
    login R E s1 = (Inr (), s2) \<and> queryDevices R E s2 = (Inr (), s3) \<and>
    devices s3 = device # rest \<and> get_prop device (lit ''deviceId'') = Inr deviceId \<and>
    deviceId \<noteq> Undefined \<and> devicePages s3 = [] \<and>
    response R E (Suc (heard s3)) 10 = Null \<longrightarrow>
      (\<exists>s'. run R E justScan fuel s = (Threw TypeError, s') \<and> devicePages s' = [Null] \<and>
            (\<exists>sock. ws s' = Some sock \<and> closed sock))"
  proof
    assume a: "connect_result E = Opened \<and>
      issueInitialization R E ?s0 = (Inr (), s1) \<and>
      login R E s1 = (Inr (), s2) \<and> queryDevices R E s2 = (Inr (), s3) \<and>
      devices s3 = device # rest \<and> get_prop device (lit ''deviceId'') = Inr deviceId \<and>
      deviceId \<noteq> Undefined \<and> devicePages s3 = [] \<and>
      response R E (Suc (heard s3)) 10 = Null"
    let ?s4 = "(snd (requestChargingStatus R E deviceId s3))\<lparr>devicePages := [Null]\<rparr>"
    have i: "issueInitialization R E ?s0 = (Inr (), s1)"
      and l: "login R E s1 = (Inr (), s2)"
      and q: "queryDevices R E s2 = (Inr (), s3)"
      and d: "devices s3 = device # rest"
      and g: "get_prop device (lit ''deviceId'') = Inr deviceId" "deviceId \<noteq> Undefined"
      and p: "devicePages s3 = []"
      and n: "response R E (Suc (heard s3)) 10 = Null"
      using a by blast+
    have "ws (snd (queryDevices R E (snd (login R E (snd (issueInitialization R E ?s0)))))) \<noteq> None"
      by simp
    then have w: "ws s3 \<noteq> None"
      by (simp add: i l q)
    have "run_body R E justScan fuel ?s0 = (Threw TypeError, ?s4)"
      by (rule run_body_page_null [OF i l q d g p w n])
    with a have "run R E justScan fuel s = (Threw TypeError, close_socket ?s4)"
      by (simp add: run_threw)
    moreover have "\<exists>sock. ws (close_socket ?s4) = Some sock \<and> closed sock"
      using w by (intro close_socket_closed) simp
    moreover have "devicePages (close_socket ?s4) = [Null]"
      by (simp add: close_socket_def split: option.splits)
    ultimately show "\<exists>s'. run R E justScan fuel s = (Threw TypeError, s') \<and>
        devicePages s' = [Null] \<and> (\<exists>sock. ws s' = Some sock \<and> closed sock)"
      by blast
  qed
  have select: "\<forall>sock. ws s = Some sock \<longrightarrow>
      fst (requestChargingStatus R E deviceId s) = Inr (response R E (Suc (heard s)) 10) \<and>
      ws (snd (requestChargingStatus R E deviceId s)) =
        Some (sock\<lparr>sent := sent sock @
          [createBinaryMessage R (Str (String_of R deviceId)) 0x00 0x49 0x01 (messageCounter s),
           createBinaryMessage R
             (Obj [(lit ''pageId'', Str (lit ''17948'')),
                   (lit ''deviceId'', Str (String_of R deviceId)),
                   (lit ''dashboardPageId'', Null)])
             0x01 0x04 0x01 (Suc (messageCounter s))]\<rparr>)"
    by (simp add: requestChargingStatus_result requestChargingStatus_sent)
  show ?thesis
    using init login query page select by blast
qed

text \<open>
  No response at all; a response to Init only; responses to Init and Login only; the
  scenario with no device page; and \<open>requestChargingStatus\<close> on an open socket with no
  response.
\<close>

theorem null_response_by_stage_witness:
  "response example_runtime (acks_env 0) 0 10 = Null \<and>
   (\<exists>s'. run example_runtime (acks_env 0) False 0 (new_session (Some (lit ''a'')) (Some (lit ''b'')) 0) =
           (Threw (Error ''Init message failed''), s')) \<and>
   response example_runtime (acks_env 1) 0 10 \<noteq> Null \<and>
   response example_runtime (acks_env 1) 1 10 = Null \<and>
   (\<exists>s'. run example_runtime (acks_env 1) False 0 (new_session (Some (lit ''a'')) (Some (lit ''b'')) 0) =
           (Threw (Error ''Did not get back user payload''), s')) \<and>
   response example_runtime (acks_env 2) 1 10 \<noteq> Null \<and>
   response example_runtime (acks_env 2) 2 10 = Null \<and>
   (\<exists>s'. run example_runtime (acks_env 2) False 0 (new_session (Some (lit ''a'')) (Some (lit ''b'')) 0) =
           (Threw TypeError, s')) \<and>
   response example_runtime (scenario_env (Some [0x00, 0x49, 0x01, 0x01]) None) 4 10 = Null \<and>
   (\<exists>s'. run example_runtime (scenario_env (Some [0x00, 0x49, 0x01, 0x01]) None) False 0
           (new_session (Some (lit ''a'')) (Some (lit ''b'')) 0) = (Threw TypeError, s') \<and>
         devicePages s' = [Null]) \<and>
   ws connected_session = Some \<lparr>sent = [], closed = False\<rparr> \<and>
   fst (requestChargingStatus example_runtime (acks_env 0) (Num 89349) connected_session) = Inr Null"
proof -
  let ?new = "new_session (Some (lit ''a'')) (Some (lit ''b'')) 0"
  let ?E = "scenario_env (Some [0x00, 0x49, 0x01, 0x01]) None"
  let ?opened = "?new\<lparr>ws := Some \<lparr>sent = [], closed = False\<rparr>\<rparr>"
  let ?afterI = "snd (issueInitialization example_runtime ?E ?opened)"
  let ?afterL = "snd (login example_runtime ?E ?afterI)"
  let ?afterQ = "snd (queryDevices example_runtime ?E ?afterL)"
  let ?device = "Obj [(lit ''name'', Str (lit ''Home Charger'')), (lit ''deviceId'', Num 89349)]"
  have s: "heard ?new = 0" "username ?new \<noteq> None" "password ?new \<noteq> None"
    by (simp_all add: new_session_def)
  have o: "connect_result (acks_env k) = Opened" for k
    by (simp add: acks_env_def)
  have c: "ws connected_session = Some \<lparr>sent = [], closed = False\<rparr>" "heard connected_session = 0"
    by (simp_all add: connected_session_def new_session_def)
  have w0: "\<exists>s'. run example_runtime (acks_env 0) False 0 ?new =
           (Threw (Error ''Init message failed''), s')"
    using null_response_by_stage [where E = "acks_env 0" and R = example_runtime and s = ?new
        and justScan = False and fuel = 0, THEN conjunct1]
    by (simp add: s o acks_response) blast
  have w1: "\<exists>s'. run example_runtime (acks_env 1) False 0 ?new =
           (Threw (Error ''Did not get back user payload''), s')"
    using null_response_by_stage [where E = "acks_env 1" and R = example_runtime and s = ?new
        and justScan = False and fuel = 0, THEN conjunct2, THEN conjunct1]
    by (simp add: s o acks_response) blast
  have w2: "\<exists>s'. run example_runtime (acks_env 2) False 0 ?new = (Threw TypeError, s')"
    using null_response_by_stage [where E = "acks_env 2" and R = example_runtime and s = ?new
        and justScan = False and fuel = 0, THEN conjunct2, THEN conjunct2, THEN conjunct1]
    by (simp add: s o acks_response) blast
  have i: "issueInitialization example_runtime ?E ?opened = (Inr (), ?afterI)"
    by (rule pair_of_fst) (simp add: run_example)
  have l: "login example_runtime ?E ?afterI = (Inr (), ?afterL)"
    by (rule pair_of_fst) (simp add: run_example)
  have q: "queryDevices example_runtime ?E ?afterL = (Inr (), ?afterQ)"
    by (rule pair_of_fst) (simp add: run_example)
  have d: "devices ?afterQ = ?device # []" "devicePages ?afterQ = []" "heard ?afterQ = 3"
    by (simp_all add: run_example)
  have g: "get_prop ?device (lit ''deviceId'') = Inr (Num 89349)"
    by (simp add: get_prop_def lit_def)
  have n: "response example_runtime ?E 4 10 = Null"
    by (simp add: response_def scenario_env_def)
  have w3: "\<exists>s'. run example_runtime ?E False 0 ?new = (Threw TypeError, s') \<and>
      devicePages s' = [Null]"
    using null_response_by_stage [where E = ?E and R = example_runtime and s = ?new
        and justScan = False and fuel = 0 and ?s1.0 = ?afterI and ?s2.0 = ?afterL and ?s3.0 = ?afterQ
        and device = ?device and rest = "[]" and deviceId = "Num 89349",
        THEN conjunct2, THEN conjunct2, THEN conjunct2, THEN conjunct1]
      i l q d g n
    by (simp add: scenario_env_def) blast
  have w4: "fst (requestChargingStatus example_runtime (acks_env 0) (Num 89349) connected_session)
      = Inr Null"
    using null_response_by_stage [where E = "acks_env 0" and R = example_runtime
        and s = connected_session and deviceId = "Num 89349",
        THEN conjunct2, THEN conjunct2, THEN conjunct2, THEN conjunct2]
    by (simp add: c acks_response)
  show ?thesis
    using w0 w1 w2 w3 w4 n by (simp add: c acks_response)
qed

text \<open>
  The scenario with no response to the Device Select send (a null payload): the run is
  not aborted. The Device Page request is sent, the page is stored, the widget maps are
  filled, and \<open>run\<close> returns.
\<close>

theorem device_select_null_counterexample:
  "response example_runtime (scenario_env None (Some page_frame)) 3 10 = Null \<and>
   run example_runtime (scenario_env None (Some page_frame)) True 0
       (new_session (Some (lit ''a'')) (Some (lit ''b'')) 0) =
     (Returned,
      \<lparr>ws = Some \<lparr>sent = [[0x01, 0x30, 0x00, 0x01, 0x7B, 0x7D],
                            [0x00, 0x02, 0x00, 0x03, 0x7B, 0x7D],
                            [0x01, 0x1B, 0x00, 0x00, 0x7B, 0x7D],
                            [0x00, 0x49, 0x01, 0x01, 0x38, 0x39, 0x33, 0x34, 0x39],
                            [0x01, 0x04, 0x01, 0x02, 0x7B, 0x7D]],
                    closed = True\<rparr>,
       username = Some (lit ''a''), password = Some (lit ''b''), user = Obj [],
       devices = [Obj [(lit ''name'', Str (lit ''Home Charger'')), (lit ''deviceId'', Num 89349)]],
       devicePages = [page_value],
       messageCounter = 3,
       widgetIdMap = [(0, [(lit ''5'', stream_value)])],
       widgetNameMap = [(0, [(Str (lit ''Charging Power''), stream_value)])],
       keepaliveTimer = 0, emitted = [], heard = 5, ticks = 1\<rparr>)"
  by (simp add: response_def run_example)

text \<open>
  C1 (the code does not do this). In the steady-state loop the telemetry frame is decoded
  by \<open>listen\<close>, and the result is dropped: no event is emitted for it, however long
  the loop runs. No run emits any event at all.
\<close>

theorem steady_state_drops_telemetry:
  "payload (fst (listen example_runtime telemetry_env 20
                  (keepalive example_runtime telemetry_env connected_session))) =
     Obj [(lit ''widgetId'', Str (lit ''5'')),
          (lit ''deviceId'', Str (lit ''89349'')),
          (lit ''widgetValue'', Str (lit ''241.29''))] \<and>
   emitted (snd (steady example_runtime telemetry_env fuel connected_session)) = [] \<and>
   emitted (snd (run R E justScan fuel s)) = emitted s"
proof -
  have tele: "parseWidgetUpdate (drop 4 telemetry_frame) =
     Obj [(lit ''widgetId'', Str (lit ''5'')),
          (lit ''deviceId'', Str (lit ''89349'')),
          (lit ''widgetValue'', Str (lit ''241.29''))]"
    by code_simp
  have k: "keepalive example_runtime telemetry_env connected_session =
           connected_session\<lparr>ticks := 1\<rparr>"
    by (simp add: keepalive_def telemetry_env_def connected_session_def new_session_def)
  have "payload (fst (listen example_runtime telemetry_env 20 (connected_session\<lparr>ticks := 1\<rparr>))) =
        parseWidgetUpdate (drop 4 telemetry_frame)"
    by (simp add: listen_payload response_def telemetry_env_def connected_session_def
        new_session_def parseBinaryMessage_with_payload classify_def telemetry_frame_def)
  moreover have "emitted (snd (steady example_runtime telemetry_env fuel connected_session)) = []"
    by (simp add: connected_session_def new_session_def)
  ultimately show ?thesis
    by (simp add: k tele run_emitted)
qed

end
